theory Spec2Isabelle
  imports Main
begin

section \<open>Strings and identifiers\<close>

text \<open>
  JavaScript strings are modelled as \<open>string\<close>; a character stands for one code unit
  below 256.  \<open>Utils.trimText\<close> is \<^verbatim>\<open>text.replace(/^\s+|\s+$/g, '')\<close>: it removes the
  leading and the trailing run of white space.  In the modelled range \<^verbatim>\<open>\s\<close> matches
  TAB, LF, VT, FF, CR, SPACE and NBSP.
\<close>

definition is_space :: "char \<Rightarrow> bool" where
  "is_space c = (c \<in> set [CHR 0x09, CHR 0x0A, CHR 0x0B, CHR 0x0C, CHR 0x0D, CHR 0x20, CHR 0xA0])"

definition trimText :: "string \<Rightarrow> string" where
  "trimText text = rev (dropWhile is_space (rev (dropWhile is_space text)))"

text \<open>\<^verbatim>\<open>String.prototype.includes\<close>: the pattern occurs as a contiguous piece.\<close>

fun includes_str :: "string \<Rightarrow> string \<Rightarrow> bool" where
  "includes_str [] p = (p = [])"
| "includes_str (c # cs) p = (take (length p) (c # cs) = p \<or> includes_str cs p)"

text \<open>
  \<open>Utils.generateId(prefix)\<close> builds \<^verbatim>\<open>`${prefix}_${Date.now()}_${random}`\<close>.  The three
  parts are kept apart; the random part is the number of the draw.
\<close>

datatype ident = Ident string int nat

section \<open>The reactive store: path-addressed tree\<close>

text \<open>
  A value of the state tree.  \<open>Obj\<close> is a plain object: its prototype is
  \<open>Object.prototype\<close>, and the list holds its own properties in insertion order.
  \<open>Inherited n\<close> is the value that a plain object without an own property \<open>n\<close> yields
  under the name \<open>n\<close> of \<open>Object.prototype\<close>: a built-in function, and under
  \<^verbatim>\<open>__proto__\<close> the prototype object itself.  \<open>Ref\<close> is any other object (an array, a
  function, a host object such as the recognition instance), known by its identity only.
  What a property of an \<open>Inherited\<close> or \<open>Ref\<close> value is, and what assigning one does, is
  not determined by the tree.
\<close>

datatype jsval = Undefined | Null | Bool bool | Num int | Str string
  | Obj "(string \<times> jsval) list"
  | Inherited string
  | Ref nat

text \<open>The property names of \<open>Object.prototype\<close>.\<close>

definition Object_prototype_names :: "string list" where
  "Object_prototype_names =
     [''constructor'', ''__defineGetter__'', ''__defineSetter__'', ''hasOwnProperty'',
      ''__lookupGetter__'', ''__lookupSetter__'', ''isPrototypeOf'', ''propertyIsEnumerable'',
      ''toString'', ''valueOf'', ''__proto__'', ''toLocaleString'']"






text \<open>
  The \<^verbatim>\<open>for (const key of pathArray)\<close> loop of \<open>getState\<close>; a throw gives \<^verbatim>\<open>undefined\<close>.
  \<open>None\<close>: the loop goes on in an \<open>Inherited\<close> or \<open>Ref\<close> value, and the tree does not
  determine the result.
\<close>

fun lookup_path :: "string list \<Rightarrow> jsval \<Rightarrow> jsval option" where
  "lookup_path [] cur = Some cur"
| "lookup_path (k # ks) cur =
     (case cur of
        Obj kvs \<Rightarrow>
          (case map_of kvs k of
             Some c \<Rightarrow> lookup_path ks c
           | None \<Rightarrow>
               if k \<in> set Object_prototype_names then lookup_path ks (Inherited k)
               else Some Undefined)
      | Inherited n \<Rightarrow> None
      | Ref r \<Rightarrow> None
      | _ \<Rightarrow> Some Undefined)"







section \<open>Data of the session controller and of the store sections it uses\<close>

text \<open>\<open>APP_CONFIG.SPEECH_CONFIG\<close>.\<close>

record speech_config =
  continuous :: bool
  interimResults :: bool
  maxAlternatives :: int
  deadTime :: int
  maxSessionTime :: int
  watchdogInterval :: int
  maxErrorCount :: int
  restartDelay :: int
  duplicateCheckTimeout :: int

definition SPEECH_CONFIG :: speech_config where
  "SPEECH_CONFIG =
     \<lparr>continuous = True, interimResults = True, maxAlternatives = 1,
      deadTime = 5000, maxSessionTime = 60000, watchdogInterval = 1000,
      maxErrorCount = 10, restartDelay = 100, duplicateCheckTimeout = 1500\<rparr>"

text \<open>A \<open>SpeechRecognition\<close> instance as the controller sets it up; \<open>eid\<close> tells instances apart.\<close>

record engine =
  eid :: nat
  lang :: string
  e_continuous :: bool
  e_interimResults :: bool
  e_maxAlternatives :: int

text \<open>\<open>state.recognition\<close> of the store.\<close>

record recognition_state =
  isActive :: bool
  isListening :: bool
  st_sessionId :: "ident option"
  currentText :: string
  interimText :: string
  finalText :: string
  st_lastResultTime :: int
  st_errorCount :: int
  recognitionInstance :: "nat option"

record text_entry =
  entry_id :: ident
  timestamp :: int
  originalText :: string
  language :: "string option"

record error_record =
  err_id :: ident
  category :: string
  code :: string
  message :: string
  details :: "string option"
  err_timestamp :: int

text \<open>
  What observers get: the events of \<open>stateManager.emit\<close> and the events triggered on the
  document, in the order they were sent.
\<close>

datatype notification =
    RecognitionStateChanged recognition_state
  | TextHistoryChanged text_entry
  | ErrorEvent error_record
  | InterimTextRecognized string
  | TextRecognized string
  | ClearInterimText

text \<open>Calls made on an engine instance; \<open>EngineStart\<close> carries the language set at the call.\<close>

datatype engine_call = EngineStop nat | EngineStart nat string

text \<open>The callbacks handed to \<^verbatim>\<open>setTimeout\<close>, one constructor for each closure of the source.\<close>

datatype task =
    Task_autoContinue
  | Task_dedupExpire string
  | Task_engineStart
  | Task_safeRestartResume "string option"
  | Task_changeLanguageRestart
  | Task_clearInterim

text \<open>Whether \<^verbatim>\<open>window.SpeechRecognition\<close> exists, and whether its constructor throws.\<close>

datatype api = ApiAvailable | ApiMissing | ApiThrows string

record manager =
  recognition :: "engine option"
  isRecognizing :: bool
  sessionId :: "ident option"
  watchdogTimer :: "nat option"
  lastResultTime :: int
  sessionStartTime :: int
  errorCount :: int
  processedTexts :: "string set"
  manualStop :: bool
  config :: speech_config

text \<open>The sections of the state tree that the controller reads and writes, with their types.\<close>

record store =
  cfg_language :: "string option"
  cfg_maxTextLines :: int
  st_recognition :: recognition_state
  textHistory :: "text_entry list"
  lastError :: "error_record option"

text \<open>
  The controller, the store and their surroundings: pending timeouts with the time they
  are due, what was sent to observers, the calls made on engines, the number of random
  draws, of engine instances and of interval handles so far, the instances whose callbacks
  are attached, the browser's API and the message table of \<open>APP_CONFIG\<close>.
\<close>

record world =
  manager :: manager
  stateManager :: store
  timers :: "(int \<times> task) list"
  notifications :: "notification list"
  engineCalls :: "engine_call list"
  draws :: nat
  engines :: nat
  handlers :: "nat list"
  intervals :: nat
  speechApi :: api
  ERROR_MESSAGES :: "((string \<times> string) \<times> string) list"

section \<open>Store operations on the typed sections\<close>

definition emit :: "notification \<Rightarrow> world \<Rightarrow> world" where
  "emit n w = w\<lparr>notifications := notifications w @ [n]\<rparr>"

definition trigger :: "notification \<Rightarrow> world \<Rightarrow> world" where
  "trigger n w = w\<lparr>notifications := notifications w @ [n]\<rparr>"

definition setTimeout :: "task \<Rightarrow> int \<Rightarrow> int \<Rightarrow> world \<Rightarrow> world" where
  "setTimeout tk delay now w = w\<lparr>timers := timers w @ [(now + max 0 delay, tk)]\<rparr>"

definition generateId :: "string \<Rightarrow> int \<Rightarrow> world \<Rightarrow> ident \<times> world" where
  "generateId prefix now w = (Ident prefix now (draws w), w\<lparr>draws := Suc (draws w)\<rparr>)"

definition getErrorMessage :: "string \<Rightarrow> string \<Rightarrow> world \<Rightarrow> string" where
  "getErrorMessage cat cd w =
     (case map_of (ERROR_MESSAGES w) (cat, cd) of
        None \<Rightarrow> ''Unknown error occurred''
      | Some m \<Rightarrow> if m = [] then ''Unknown error occurred'' else m)"

text \<open>\<open>Object.assign(state.recognition, updates)\<close>, then the event with the merged section.\<close>

definition updateRecognitionState ::
    "(recognition_state \<Rightarrow> recognition_state) \<Rightarrow> world \<Rightarrow> world" where
  "updateRecognitionState updates w =
     (let r = updates (st_recognition (stateManager w))
      in emit (RecognitionStateChanged r)
           (w\<lparr>stateManager := (stateManager w)\<lparr>st_recognition := r\<rparr>\<rparr>))"

definition addTextHistory :: "string \<Rightarrow> string option \<Rightarrow> int \<Rightarrow> world \<Rightarrow> world" where
  "addTextHistory text lng now w =
     (let (i, w1) = generateId ''text'' now w;
          newEntry = \<lparr>entry_id = i, timestamp = now, originalText = text, language = lng\<rparr>;
          history = newEntry # textHistory (stateManager w1);
          maxLines = cfg_maxTextLines (stateManager w1);
          history' = (if maxLines > 0 \<and> int (length history) > maxLines
                      then take (nat maxLines) history else history)
      in emit (TextHistoryChanged newEntry)
           (w1\<lparr>stateManager := (stateManager w1)\<lparr>textHistory := history'\<rparr>\<rparr>))"

definition setError :: "string \<Rightarrow> string \<Rightarrow> string option \<Rightarrow> int \<Rightarrow> world \<Rightarrow> world" where
  "setError cat cd det now w =
     (let (i, w1) = generateId ''error'' now w;
          err = \<lparr>err_id = i, category = cat, code = cd, message = getErrorMessage cat cd w1,
                 details = det, err_timestamp = now\<rparr>
      in emit (ErrorEvent err) (w1\<lparr>stateManager := (stateManager w1)\<lparr>lastError := Some err\<rparr>\<rparr>))"

section \<open>The session controller\<close>

text \<open>\<^verbatim>\<open>stateManager.getState('config.language') || 'en-US'\<close>.\<close>

definition language_or_default :: "string option \<Rightarrow> string" where
  "language_or_default l = (case l of None \<Rightarrow> ''en-US'' | Some x \<Rightarrow> if x = [] then ''en-US'' else x)"

text \<open>Assigning to the string attribute \<open>lang\<close>: \<^verbatim>\<open>undefined\<close> becomes its name.\<close>

definition to_DOMString :: "string option \<Rightarrow> string" where
  "to_DOMString l = (case l of None \<Rightarrow> ''undefined'' | Some x \<Rightarrow> x)"

definition stopWatchdog :: "world \<Rightarrow> world" where
  "stopWatchdog w = w\<lparr>manager := (manager w)\<lparr>watchdogTimer := None\<rparr>\<rparr>"

definition startWatchdog :: "world \<Rightarrow> world" where
  "startWatchdog w =
     (let w1 = stopWatchdog w
      in w1\<lparr>manager := (manager w1)\<lparr>watchdogTimer := Some (intervals w1)\<rparr>,
            intervals := Suc (intervals w1)\<rparr>)"

definition forceStopRecognition :: "world \<Rightarrow> world" where
  "forceStopRecognition w =
     (case recognition (manager w) of
        None \<Rightarrow> w
      | Some e \<Rightarrow> w\<lparr>engineCalls := engineCalls w @ [EngineStop (eid e)]\<rparr>)"

definition resetInternalState :: "world \<Rightarrow> world" where
  "resetInternalState w = stopWatchdog (w\<lparr>manager := (manager w)\<lparr>isRecognizing := False\<rparr>\<rparr>)"

definition resetStateManagerState :: "bool \<Rightarrow> world \<Rightarrow> world" where
  "resetStateManagerState clearTexts w =
     updateRecognitionState
       (\<lambda>r. if clearTexts
            then r\<lparr>isActive := False, isListening := False, currentText := [], interimText := []\<rparr>
            else r\<lparr>isActive := False, isListening := False\<rparr>) w"

definition clearInterimTextReliably :: "int \<Rightarrow> world \<Rightarrow> world" where
  "clearInterimTextReliably now w =
     setTimeout Task_clearInterim 50 now
       (setTimeout Task_clearInterim 10 now (trigger ClearInterimText w))"

definition performFullReset :: "bool \<Rightarrow> int \<Rightarrow> world \<Rightarrow> world" where
  "performFullReset clearTexts now w =
     clearInterimTextReliably now
       (resetStateManagerState clearTexts (forceStopRecognition (resetInternalState w)))"

text \<open>
  \<open>initializeRecognition\<close> with \<open>setupRecognitionConfig\<close> and \<open>setupEventHandlers\<close>: a new
  instance replaces the handle, and its callbacks are attached.  The instance that was
  there before keeps its callbacks.
\<close>

definition initializeRecognition :: "int \<Rightarrow> world \<Rightarrow> bool \<times> world" where
  "initializeRecognition now w =
     (case speechApi w of
        ApiMissing \<Rightarrow> (False, setError ''SPEECH_RECOGNITION'' ''NOT_SUPPORTED'' None now w)
      | ApiThrows msg \<Rightarrow>
          (False, setError ''SPEECH_RECOGNITION'' ''NOT_SUPPORTED'' (Some msg) now w)
      | ApiAvailable \<Rightarrow>
          (True,
           w\<lparr>manager := (manager w)
                \<lparr>recognition := Some
                   \<lparr>eid = engines w,
                    lang = language_or_default (cfg_language (stateManager w)),
                    e_continuous = continuous (config (manager w)),
                    e_interimResults = interimResults (config (manager w)),
                    e_maxAlternatives = maxAlternatives (config (manager w))\<rparr>\<rparr>,
             engines := Suc (engines w),
             handlers := handlers w @ [engines w]\<rparr>))"

definition start :: "int \<Rightarrow> world \<Rightarrow> bool \<times> world" where
  "start now w =
     (let (ok, w1) = (case recognition (manager w) of
                        None \<Rightarrow> initializeRecognition now w
                      | Some e \<Rightarrow> (True, w))
      in if \<not> ok then (False, setError ''SPEECH_RECOGNITION'' ''NOT_SUPPORTED'' None now w1)
         else if isRecognizing (manager w1) then (True, w1)
         else (True,
               setTimeout Task_engineStart (restartDelay (config (manager w1))) now
                 (resetInternalState (forceStopRecognition w1))))"

text \<open>
  The closure that \<open>start\<close> defers.  \<open>thrown\<close> is the message of the exception that the
  engine's own \<open>start\<close> raises at this call, if it raises one.  Without a handle the
  assignment to \<open>lang\<close> throws a \<^verbatim>\<open>TypeError\<close>.
\<close>

definition null_handle_message :: string where
  "null_handle_message = ''Cannot set properties of null''"

definition engineStart_task :: "string option \<Rightarrow> int \<Rightarrow> world \<Rightarrow> world" where
  "engineStart_task thrown now w =
     (if isRecognizing (manager w) then w
      else
        (case recognition (manager w) of
           None \<Rightarrow>
             setError ''SPEECH_RECOGNITION'' ''ABORTED'' (Some null_handle_message) now
               (resetInternalState w)
         | Some e \<Rightarrow>
             (let l = language_or_default (cfg_language (stateManager w));
                  w1 = w\<lparr>manager := (manager w)\<lparr>recognition := Some (e\<lparr>lang := l\<rparr>)\<rparr>,
                         engineCalls := engineCalls w @ [EngineStart (eid e) l]\<rparr>
              in case thrown of
                   None \<Rightarrow> w1
                 | Some msg \<Rightarrow>
                     if includes_str msg ''already started'' then w1
                     else setError ''SPEECH_RECOGNITION'' ''ABORTED'' (Some msg) now
                            (resetInternalState w1))))"

definition stop :: "int \<Rightarrow> world \<Rightarrow> bool \<times> world" where
  "stop now w =
     (case recognition (manager w) of
        None \<Rightarrow> (True, w)
      | Some e \<Rightarrow>
          (True,
           setTimeout Task_clearInterim 200 now
             (setTimeout Task_clearInterim 100 now
                (performFullReset True now
                   (w\<lparr>manager := (manager w)\<lparr>manualStop := True\<rparr>\<rparr>)))))"

definition safeRestart :: "int \<Rightarrow> world \<Rightarrow> world" where
  "safeRestart now w =
     (let currentLanguage = cfg_language (stateManager w);
          w1 = performFullReset True now w;
          w2 = w1\<lparr>manager := (manager w1)\<lparr>errorCount := 0\<rparr>\<rparr>;
          w3 = updateRecognitionState (\<lambda>r. r\<lparr>st_errorCount := 0\<rparr>) w2
      in setTimeout (Task_safeRestartResume currentLanguage)
           (restartDelay (config (manager w3))) now w3)"

text \<open>The closure that \<open>safeRestart\<close> defers.\<close>

definition safeRestartResume_task :: "string option \<Rightarrow> int \<Rightarrow> world \<Rightarrow> world" where
  "safeRestartResume_task currentLanguage now w =
     (let w1 = snd (initializeRecognition now w);
          w2 = (case recognition (manager w1) of
                  None \<Rightarrow> w1
                | Some e \<Rightarrow>
                    w1\<lparr>manager := (manager w1)
                         \<lparr>recognition := Some (e\<lparr>lang := to_DOMString currentLanguage\<rparr>)\<rparr>\<rparr>)
      in snd (start now w2))"

definition changeLanguage :: "string \<Rightarrow> int \<Rightarrow> world \<Rightarrow> bool \<times> world" where
  "changeLanguage l now w =
     (let wasRecognizing = isRecognizing (manager w);
          w1 = (if wasRecognizing then snd (stop now w) else w);
          w2 = (case recognition (manager w1) of
                  None \<Rightarrow> w1
                | Some e \<Rightarrow> w1\<lparr>manager := (manager w1)\<lparr>recognition := Some (e\<lparr>lang := l\<rparr>)\<rparr>\<rparr>);
          w3 = (if wasRecognizing
                then setTimeout Task_changeLanguageRestart (restartDelay (config (manager w2))) now w2
                else w2)
      in (True, w3))"

text \<open>\<open>destroy\<close>: stop, detach the callbacks of the current instance, drop the handle.\<close>

definition destroy :: "int \<Rightarrow> world \<Rightarrow> world" where
  "destroy now w =
     (let w1 = snd (stop now w)
      in case recognition (manager w1) of
           None \<Rightarrow> w1
         | Some e \<Rightarrow>
             w1\<lparr>manager := (manager w1)\<lparr>recognition := None\<rparr>,
                handlers := filter (\<lambda>i. i \<noteq> eid e) (handlers w1)\<rparr>)"

section \<open>Results, errors and engine callbacks\<close>

text \<open>
  A result of the engine with its alternatives, and the event that delivers a list of
  results.  Reading \<^verbatim>\<open>result[0].transcript\<close> of a result without alternatives throws.
\<close>

record speech_result =
  alternatives :: "string list"
  isFinal :: bool

record result_event =
  resultIndex :: nat
  results :: "speech_result list"

text \<open>The loop of \<open>handleResult\<close> on the results from \<open>resultIndex\<close> on; \<open>None\<close> is the throw.\<close>

fun collect_transcripts ::
    "speech_result list \<Rightarrow> string \<times> string \<Rightarrow> (string \<times> string) option" where
  "collect_transcripts [] acc = Some acc"
| "collect_transcripts (r # rs) (interimTranscript, finalTranscript) =
     (case alternatives r of
        [] \<Rightarrow> None
      | transcript # _ \<Rightarrow>
          if isFinal r then collect_transcripts rs (interimTranscript, finalTranscript @ transcript)
          else collect_transcripts rs (interimTranscript @ transcript, finalTranscript))"

definition processFinalResult :: "string \<Rightarrow> int \<Rightarrow> world \<Rightarrow> world" where
  "processFinalResult text now w =
     (let trimmedText = trimText text
      in if trimmedText = [] then w
         else if trimmedText \<in> processedTexts (manager w) then w
         else
           (let w1 = w\<lparr>manager := (manager w)
                       \<lparr>processedTexts := insert trimmedText (processedTexts (manager w))\<rparr>\<rparr>;
                w2 = setTimeout (Task_dedupExpire trimmedText)
                       (duplicateCheckTimeout (config (manager w1))) now w1;
                w3 = addTextHistory trimmedText (cfg_language (stateManager w2)) now w2;
                w4 = updateRecognitionState
                       (\<lambda>r. r\<lparr>finalText := trimmedText, currentText := trimmedText\<rparr>) w3
            in trigger (TextRecognized trimmedText) w4))"

text \<open>
  \<open>handleResult\<close> after its first statement: \<open>currentSessionId\<close> is the identifier that
  was read when the callback began.
\<close>

definition handleResult_from :: "ident option \<Rightarrow> result_event \<Rightarrow> int \<Rightarrow> world \<Rightarrow> world" where
  "handleResult_from currentSessionId ev now w =
     (let w1 = w\<lparr>manager := (manager w)\<lparr>lastResultTime := now\<rparr>\<rparr>
      in case collect_transcripts (drop (resultIndex ev) (results ev)) ([], []) of
           None \<Rightarrow> w1
         | Some (interimTranscript, finalTranscript) \<Rightarrow>
             if currentSessionId \<noteq> sessionId (manager w1) then w1
             else
               (let w2 = (if interimTranscript \<noteq> []
                          then trigger (InterimTextRecognized interimTranscript)
                                 (updateRecognitionState
                                    (\<lambda>r. r\<lparr>interimText := interimTranscript,
                                            currentText := finalTranscript @ interimTranscript\<rparr>)
                                    w1)
                          else w1)
                in if finalTranscript \<noteq> [] then processFinalResult finalTranscript now w2
                   else w2))"

definition handleResult :: "result_event \<Rightarrow> int \<Rightarrow> world \<Rightarrow> world" where
  "handleResult ev now w = handleResult_from (sessionId (manager w)) ev now w"

definition mapErrorCode :: "string \<Rightarrow> string" where
  "mapErrorCode err =
     (case map_of
        [(''not-allowed'', ''NOT_ALLOWED''), (''no-speech'', ''NO_SPEECH''),
         (''aborted'', ''ABORTED''), (''audio-capture'', ''AUDIO_CAPTURE''),
         (''network'', ''NETWORK''), (''timeout'', ''TIMEOUT'')] err of
        None \<Rightarrow> ''UNKNOWN''
      | Some c \<Rightarrow> c)"

definition criticalErrors :: "string list" where
  "criticalErrors = [''not-allowed'', ''service-not-allowed'']"

definition handleError :: "string \<Rightarrow> int \<Rightarrow> world \<Rightarrow> world" where
  "handleError err now w =
     (let w1 = w\<lparr>manager := (manager w)\<lparr>errorCount := errorCount (manager w) + 1\<rparr>\<rparr>;
          errorCode = mapErrorCode err;
          w2 = updateRecognitionState (\<lambda>r. r\<lparr>st_errorCount := errorCount (manager w1)\<rparr>) w1
      in if err \<in> set criticalErrors
         then snd (stop now (setError ''SPEECH_RECOGNITION'' errorCode (Some err) now w2))
         else if errorCount (manager w2) \<ge> maxErrorCount (config (manager w2))
         then snd (stop now w2)
         else w2)"

definition onstart :: "int \<Rightarrow> world \<Rightarrow> world" where
  "onstart now w =
     (let (sid, w1) = generateId ''session'' now w;
          w2 = w1\<lparr>manager := (manager w1)
                  \<lparr>isRecognizing := True, sessionId := Some sid, lastResultTime := now,
                   sessionStartTime := now, errorCount := 0\<rparr>\<rparr>;
          w3 = updateRecognitionState
                 (\<lambda>r. r\<lparr>isActive := True, isListening := True, st_sessionId := Some sid,
                         recognitionInstance := map_option eid (recognition (manager w2))\<rparr>) w2
      in startWatchdog w3)"

definition onend :: "int \<Rightarrow> world \<Rightarrow> world" where
  "onend now w =
     (let w1 = stopWatchdog (w\<lparr>manager := (manager w)\<lparr>isRecognizing := False\<rparr>\<rparr>);
          w2 = (if \<not> manualStop (manager w1)
                then setTimeout Task_autoContinue (restartDelay (config (manager w1))) now
                       (updateRecognitionState (\<lambda>r. r\<lparr>isActive := True, isListening := False\<rparr>) w1)
                else trigger ClearInterimText
                       (resetStateManagerState True (resetInternalState w1)))
      in w2\<lparr>manager := (manager w2)\<lparr>manualStop := False\<rparr>\<rparr>)"

text \<open>The callback of the watchdog's \<^verbatim>\<open>setInterval\<close>.\<close>

definition watchdog_tick :: "int \<Rightarrow> world \<Rightarrow> world" where
  "watchdog_tick now w =
     (if \<not> isRecognizing (manager w) then w
      else
        (let timeSinceLastResult = now - lastResultTime (manager w);
             timeSinceSessionStart = now - sessionStartTime (manager w);
             isResultTimeout = timeSinceLastResult > deadTime (config (manager w));
             isSessionTimeout = timeSinceSessionStart > maxSessionTime (config (manager w))
         in if isResultTimeout \<or> isSessionTimeout then safeRestart now w else w))"

section \<open>Timers and the interleaving of callbacks\<close>

definition run_task :: "string option \<Rightarrow> task \<Rightarrow> int \<Rightarrow> world \<Rightarrow> world" where
  "run_task thrown tk now w =
     (case tk of
        Task_autoContinue \<Rightarrow> if \<not> isRecognizing (manager w) then snd (start now w) else w
      | Task_dedupExpire t \<Rightarrow>
          w\<lparr>manager := (manager w)\<lparr>processedTexts := processedTexts (manager w) - {t}\<rparr>\<rparr>
      | Task_engineStart \<Rightarrow> engineStart_task thrown now w
      | Task_safeRestartResume l \<Rightarrow> safeRestartResume_task l now w
      | Task_changeLanguageRestart \<Rightarrow> snd (start now w)
      | Task_clearInterim \<Rightarrow> trigger ClearInterimText w)"

text \<open>
  What can happen next: a call of the public interface, a callback of an engine instance
  (delivered while the callbacks of that instance are attached), a pending timeout that
  is due (\<open>Timer_fires k thrown\<close> takes the timeout at position \<open>k\<close>; \<open>thrown\<close> is what the
  engine's \<open>start\<close> raises if the task calls it), and a tick of the interval whose handle is
  still the watchdog's.  An event that is not enabled leaves the world as it is.
\<close>

datatype event =
    Call_start
  | Call_stop
  | Call_changeLanguage string
  | Call_destroy
  | Engine_onstart nat
  | Engine_onend nat
  | Engine_onresult nat result_event
  | Engine_onerror nat string
  | Timer_fires nat "string option"
  | Interval_fires nat

definition step :: "int \<Rightarrow> event \<Rightarrow> world \<Rightarrow> world" where
  "step now e w =
     (case e of
        Call_start \<Rightarrow> snd (start now w)
      | Call_stop \<Rightarrow> snd (stop now w)
      | Call_changeLanguage l \<Rightarrow> snd (changeLanguage l now w)
      | Call_destroy \<Rightarrow> destroy now w
      | Engine_onstart i \<Rightarrow> if i \<in> set (handlers w) then onstart now w else w
      | Engine_onend i \<Rightarrow> if i \<in> set (handlers w) then onend now w else w
      | Engine_onresult i ev \<Rightarrow> if i \<in> set (handlers w) then handleResult ev now w else w
      | Engine_onerror i err \<Rightarrow> if i \<in> set (handlers w) then handleError err now w else w
      | Timer_fires k thrown \<Rightarrow>
          if k < length (timers w) \<and> fst (timers w ! k) \<le> now
          then run_task thrown (snd (timers w ! k)) now
                 (w\<lparr>timers := take k (timers w) @ drop (Suc k) (timers w)\<rparr>)
          else w
      | Interval_fires h \<Rightarrow>
          if watchdogTimer (manager w) = Some h then watchdog_tick now w else w)"

text \<open>A timed sequence of events, each with the value of \<^verbatim>\<open>Date.now()\<close> during it.\<close>

fun run :: "(int \<times> event) list \<Rightarrow> world \<Rightarrow> world" where
  "run [] w = w"
| "run ((now, e) # es) w = run es (step now e w)"

text \<open>How often the watchdog called \<open>safeRestart\<close> during a timed sequence of events.\<close>

definition triggers_safeRestart :: "int \<Rightarrow> event \<Rightarrow> world \<Rightarrow> bool" where
  "triggers_safeRestart now e w =
     (case e of
        Interval_fires h \<Rightarrow>
          watchdogTimer (manager w) = Some h \<and> isRecognizing (manager w) \<and>
          (now - lastResultTime (manager w) > deadTime (config (manager w)) \<or>
           now - sessionStartTime (manager w) > maxSessionTime (config (manager w)))
      | _ \<Rightarrow> False)"

fun safeRestarts :: "(int \<times> event) list \<Rightarrow> world \<Rightarrow> nat" where
  "safeRestarts [] w = 0"
| "safeRestarts ((now, e) # es) w =
     (if triggers_safeRestart now e w then 1 else 0) + safeRestarts es (step now e w)"

text \<open>Events by their kind, to speak of sequences without an end or a start callback.\<close>

fun is_onend :: "event \<Rightarrow> bool" where
  "is_onend (Engine_onend i) = True"
| "is_onend _ = False"

fun is_onstart :: "event \<Rightarrow> bool" where
  "is_onstart (Engine_onstart i) = True"
| "is_onstart _ = False"

text \<open>
  The window of processed texts as seen from the outside: the text is in the set, and
  every pending timeout that would take it out is due at \<open>T\<close> or later.
\<close>

definition in_dedup_window :: "string \<Rightarrow> int \<Rightarrow> world \<Rightarrow> bool" where
  "in_dedup_window t T w =
     (t \<in> processedTexts (manager w) \<and>
      list_all (\<lambda>x. snd x = Task_dedupExpire t \<longrightarrow> T \<le> fst x) (timers w))"

text \<open>The texts whose expiry is pending, in the order of the timeouts.\<close>

fun expiry_texts :: "(int \<times> task) list \<Rightarrow> string list" where
  "expiry_texts [] = []"
| "expiry_texts ((due, Task_dedupExpire t) # ts) = t # expiry_texts ts"
| "expiry_texts (_ # ts) = expiry_texts ts"

text \<open>
  Every text has at most one expiry pending, and only texts of the set have one.
\<close>

definition expiries_ok :: "world \<Rightarrow> bool" where
  "expiries_ok w =
     (distinct (expiry_texts (timers w)) \<and>
      set (expiry_texts (timers w)) \<subseteq> processedTexts (manager w))"

text \<open>How many entries of the history carry the text.\<close>

definition entries_of :: "string \<Rightarrow> world \<Rightarrow> nat" where
  "entries_of t w = length (filter (\<lambda>e. originalText e = t) (textHistory (stateManager w)))"

section \<open>The initial world\<close>

text \<open>The fields of a new controller before \<open>initializeRecognition\<close> runs.\<close>

definition new_manager :: manager where
  "new_manager =
     \<lparr>recognition = None, isRecognizing = False, sessionId = None, watchdogTimer = None,
      lastResultTime = 0, sessionStartTime = 0, errorCount = 0, processedTexts = {},
      manualStop = False, config = SPEECH_CONFIG\<rparr>"

text \<open>
  \<open>initializeState\<close> for the sections above; the arguments are the saved language and
  the saved line limit, if any (\<^verbatim>\<open>saved || default\<close>).
\<close>

definition initializeState :: "string option \<Rightarrow> int option \<Rightarrow> store" where
  "initializeState savedLanguage savedMaxTextLines =
     \<lparr>cfg_language = Some (language_or_default savedLanguage),
      cfg_maxTextLines = (case savedMaxTextLines of None \<Rightarrow> 50 | Some n \<Rightarrow> if n = 0 then 50 else n),
      st_recognition =
        \<lparr>isActive = False, isListening = False, st_sessionId = None, currentText = [],
         interimText = [], finalText = [], st_lastResultTime = 0, st_errorCount = 0,
         recognitionInstance = None\<rparr>,
      textHistory = [], lastError = None\<rparr>"

text \<open>The world once the store and the controller have been constructed.\<close>

definition boot :: "api \<Rightarrow> ((string \<times> string) \<times> string) list \<Rightarrow> int \<Rightarrow> world" where
  "boot a msgs now =
     snd (initializeRecognition now
       \<lparr>manager = new_manager, stateManager = initializeState None None, timers = [],
        notifications = [], engineCalls = [], draws = 0, engines = 0, handlers = [],
        intervals = 0, speechApi = a, ERROR_MESSAGES = msgs\<rparr>)"


text \<open>
  The same with saved settings: the store is constructed from the saved language and the
  saved line limit, then the controller.
\<close>

definition boot_saved ::
    "string option \<Rightarrow> int option \<Rightarrow> api \<Rightarrow> ((string \<times> string) \<times> string) list \<Rightarrow> int \<Rightarrow> world" where
  "boot_saved savedLanguage savedMaxTextLines a msgs now =
     snd (initializeRecognition now
       \<lparr>manager = new_manager, stateManager = initializeState savedLanguage savedMaxTextLines,
        timers = [], notifications = [], engineCalls = [], draws = 0, engines = 0,
        handlers = [], intervals = 0, speechApi = a, ERROR_MESSAGES = msgs\<rparr>)"

section \<open>The store: writing and reading a path\<close>









lemma lookup_path_absent:
  "map_of kvs k = None \<Longrightarrow> k \<notin> set Object_prototype_names \<Longrightarrow>
   lookup_path (k # ks) (Obj kvs) = Some Undefined"
  by simp






section \<open>The store: text history\<close>

text \<open>
  C9.  \<open>addTextHistory\<close> sends \<open>textHistoryChanged\<close> with the new entry on every call.
  The new entry is put in front.  With a limit above 0 that the new length exceeds, the
  history is cut to its first entries, as many as the limit says, so the oldest ones go;
  with a limit of 0 (or below), or within the limit, the history is the new entry before
  all old ones.
\<close>

theorem addTextHistory_cap:
  "notifications (addTextHistory text lng now w) =
     notifications w @
       [TextHistoryChanged
          \<lparr>entry_id = Ident ''text'' now (draws w), timestamp = now, originalText = text,
           language = lng\<rparr>] \<and>
   (0 < cfg_maxTextLines (stateManager w) \<longrightarrow>
      hd (textHistory (stateManager (addTextHistory text lng now w))) =
        \<lparr>entry_id = Ident ''text'' now (draws w), timestamp = now, originalText = text,
         language = lng\<rparr>) \<and>
   (0 < cfg_maxTextLines (stateManager w) \<and>
    cfg_maxTextLines (stateManager w) < int (length (textHistory (stateManager w))) + 1 \<longrightarrow>
      textHistory (stateManager (addTextHistory text lng now w)) =
        take (nat (cfg_maxTextLines (stateManager w)))
          (\<lparr>entry_id = Ident ''text'' now (draws w), timestamp = now, originalText = text,
            language = lng\<rparr> # textHistory (stateManager w)) \<and>
      int (length (textHistory (stateManager (addTextHistory text lng now w)))) =
        cfg_maxTextLines (stateManager w)) \<and>
   (cfg_maxTextLines (stateManager w) \<le> 0 \<or>
    int (length (textHistory (stateManager w))) + 1 \<le> cfg_maxTextLines (stateManager w) \<longrightarrow>
      textHistory (stateManager (addTextHistory text lng now w)) =
        \<lparr>entry_id = Ident ''text'' now (draws w), timestamp = now, originalText = text,
         language = lng\<rparr> # textHistory (stateManager w))"
  by (auto simp: addTextHistory_def generateId_def emit_def Let_def hd_take)

theorem addTextHistory_cap_witness:
  "textHistory (stateManager (addTextHistory ''c'' None 7
     ((boot ApiAvailable [] 0)\<lparr>stateManager := (initializeState None None)
        \<lparr>cfg_maxTextLines := 2,
         textHistory := [\<lparr>entry_id = Ident ''text'' 2 1, timestamp = 2, originalText = ''b'', language = None\<rparr>,
                         \<lparr>entry_id = Ident ''text'' 1 0, timestamp = 1, originalText = ''a'', language = None\<rparr>]\<rparr>\<rparr>))) =
     [\<lparr>entry_id = Ident ''text'' 7 0, timestamp = 7, originalText = ''c'', language = None\<rparr>,
      \<lparr>entry_id = Ident ''text'' 2 1, timestamp = 2, originalText = ''b'', language = None\<rparr>] \<and>
   textHistory (stateManager (addTextHistory ''c'' None 7
     ((boot ApiAvailable [] 0)\<lparr>stateManager := (initializeState None None)
        \<lparr>cfg_maxTextLines := 0,
         textHistory := [\<lparr>entry_id = Ident ''text'' 2 1, timestamp = 2, originalText = ''b'', language = None\<rparr>]\<rparr>\<rparr>))) =
     [\<lparr>entry_id = Ident ''text'' 7 0, timestamp = 7, originalText = ''c'', language = None\<rparr>,
      \<lparr>entry_id = Ident ''text'' 2 1, timestamp = 2, originalText = ''b'', language = None\<rparr>]"
  using addTextHistory_cap [of "''c''" None 7
      "(boot ApiAvailable [] 0)\<lparr>stateManager := (initializeState None None)
        \<lparr>cfg_maxTextLines := 2,
         textHistory := [\<lparr>entry_id = Ident ''text'' 2 1, timestamp = 2, originalText = ''b'', language = None\<rparr>,
                         \<lparr>entry_id = Ident ''text'' 1 0, timestamp = 1, originalText = ''a'', language = None\<rparr>]\<rparr>\<rparr>"]
    addTextHistory_cap [of "''c''" None 7
      "(boot ApiAvailable [] 0)\<lparr>stateManager := (initializeState None None)
        \<lparr>cfg_maxTextLines := 0,
         textHistory := [\<lparr>entry_id = Ident ''text'' 2 1, timestamp = 2, originalText = ''b'', language = None\<rparr>]\<rparr>\<rparr>"]
  by (simp add: boot_def initializeRecognition_def initializeState_def new_manager_def)

section \<open>Result callback: liveness stamp and session fence\<close>

text \<open>
  C10.  Every run of the result callback sets the controller's \<open>lastResultTime\<close> to the
  current time, whatever identifier was captured: also when the fence discards the
  results, and when reading the results throws.
\<close>

theorem handleResult_refreshes_lastResultTime:
  "lastResultTime (manager (handleResult_from sid ev now w)) = now \<and>
   lastResultTime (manager (handleResult ev now w)) = now"
  by (simp add: handleResult_def handleResult_from_def processFinalResult_def addTextHistory_def
      generateId_def emit_def trigger_def updateRecognitionState_def setTimeout_def Let_def
      split: option.splits prod.splits)

section \<open>Unfolding the controller\<close>

lemmas basic_defs = emit_def trigger_def setTimeout_def generateId_def getErrorMessage_def
  updateRecognitionState_def setError_def stopWatchdog_def startWatchdog_def
  forceStopRecognition_def resetInternalState_def resetStateManagerState_def
  clearInterimTextReliably_def performFullReset_def addTextHistory_def

lemmas ctl_defs = initializeRecognition_def start_def engineStart_task_def stop_def
  safeRestart_def safeRestartResume_task_def changeLanguage_def destroy_def
  processFinalResult_def handleResult_from_def handleResult_def handleError_def
  onstart_def onend_def watchdog_tick_def run_task_def

lemmas world_defs = boot_def boot_saved_def new_manager_def initializeState_def SPEECH_CONFIG_def
  language_or_default_def to_DOMString_def criticalErrors_def mapErrorCode_def step_def

lemma stop_with_handle:
  "recognition (manager w) = Some e \<Longrightarrow>
   stop now w =
     (True,
      w\<lparr>manager := (manager w)\<lparr>manualStop := True, isRecognizing := False, watchdogTimer := None\<rparr>,
        engineCalls := engineCalls w @ [EngineStop (eid e)],
        stateManager := (stateManager w)
          \<lparr>st_recognition := (st_recognition (stateManager w))
             \<lparr>isActive := False, isListening := False, currentText := [], interimText := []\<rparr>\<rparr>,
        notifications := notifications w @
          [RecognitionStateChanged ((st_recognition (stateManager w))
             \<lparr>isActive := False, isListening := False, currentText := [], interimText := []\<rparr>),
           ClearInterimText],
        timers := timers w @ [(now + 10, Task_clearInterim), (now + 50, Task_clearInterim),
                              (now + 100, Task_clearInterim), (now + 200, Task_clearInterim)]\<rparr>)"
  by (simp add: stop_def basic_defs Let_def)

lemma stop_without_handle: "recognition (manager w) = None \<Longrightarrow> stop now w = (True, w)"
  by (simp add: stop_def)

lemma start_idle:
  "recognition (manager w) = Some e \<Longrightarrow> \<not> isRecognizing (manager w) \<Longrightarrow>
   start now w =
     (True,
      w\<lparr>manager := (manager w)\<lparr>isRecognizing := False, watchdogTimer := None\<rparr>,
        engineCalls := engineCalls w @ [EngineStop (eid e)],
        timers := timers w @ [(now + max 0 (restartDelay (config (manager w))), Task_engineStart)]\<rparr>)"
  by (simp add: start_def basic_defs Let_def)


lemma engineStart_task_idle:
  "recognition (manager w) = Some e \<Longrightarrow> \<not> isRecognizing (manager w) \<Longrightarrow>
   engineStart_task None now w =
     w\<lparr>manager := (manager w)
          \<lparr>recognition := Some (e\<lparr>lang := language_or_default (cfg_language (stateManager w))\<rparr>)\<rparr>,
        engineCalls := engineCalls w @
          [EngineStart (eid e) (language_or_default (cfg_language (stateManager w)))]\<rparr>"
  by (simp add: engineStart_task_def Let_def)


lemma start_creates_handle:
  "recognition (manager w) = None \<Longrightarrow> speechApi w = ApiAvailable \<Longrightarrow>
   start now w = start now (snd (initializeRecognition now w))"
  by (simp add: start_def initializeRecognition_def Let_def)

lemma start_unsupported:
  "recognition (manager w) = None \<Longrightarrow> speechApi w \<noteq> ApiAvailable \<Longrightarrow>
   \<not> fst (start now w) \<and> timers (snd (start now w)) = timers w \<and>
   engineCalls (snd (start now w)) = engineCalls w"
  by (cases "speechApi w")
    (simp_all add: start_def initializeRecognition_def setError_def generateId_def emit_def Let_def)

section \<open>stop\<close>

text \<open>
  C5, as amended.  When the controller holds an engine handle, \<open>stop\<close> leaves the published
  recognition state with \<open>isListening\<close> and \<open>isActive\<close> false and \<open>currentText\<close> and
  \<open>interimText\<close> empty, publishes that state, sets the manual-stop flag and clears
  \<open>isRecognizing\<close> and the watchdog.  Without a handle \<open>stop\<close> changes nothing.  In both
  cases it returns \<open>true\<close> and neither the controller's nor the published error counter
  changes.
\<close>

theorem stop_postcondition:
  "(recognition (manager w) \<noteq> None \<longrightarrow>
      \<not> isListening (st_recognition (stateManager (snd (stop now w)))) \<and>
      \<not> isActive (st_recognition (stateManager (snd (stop now w)))) \<and>
      currentText (st_recognition (stateManager (snd (stop now w)))) = [] \<and>
      interimText (st_recognition (stateManager (snd (stop now w)))) = [] \<and>
      RecognitionStateChanged (st_recognition (stateManager (snd (stop now w))))
        \<in> set (notifications (snd (stop now w))) \<and>
      manualStop (manager (snd (stop now w))) \<and>
      \<not> isRecognizing (manager (snd (stop now w))) \<and>
      watchdogTimer (manager (snd (stop now w))) = None) \<and>
   (recognition (manager w) = None \<longrightarrow> snd (stop now w) = w) \<and>
   errorCount (manager (snd (stop now w))) = errorCount (manager w) \<and>
   st_errorCount (st_recognition (stateManager (snd (stop now w)))) =
     st_errorCount (st_recognition (stateManager w)) \<and>
   fst (stop now w)"
  by (cases "recognition (manager w)") (simp_all add: stop_with_handle stop_without_handle)

theorem stop_postcondition_witness:
  "recognition (manager (boot ApiAvailable [] 0)) \<noteq> None \<and>
   \<not> isListening (st_recognition (stateManager (snd (stop 5 (boot ApiAvailable [] 0))))) \<and>
   currentText (st_recognition (stateManager (snd (stop 5 (boot ApiAvailable [] 0))))) = [] \<and>
   recognition (manager (boot ApiMissing [] 0)) = None \<and>
   snd (stop 5 (boot ApiMissing [] 0)) = boot ApiMissing [] 0"
  using stop_postcondition [of "boot ApiAvailable [] 0" 5]
    stop_postcondition [of "boot ApiMissing [] 0" 5]
  by (simp add: world_defs ctl_defs basic_defs Let_def)

text \<open>
  C5 as stated fails after \<open>destroy\<close>: an instance replaced by a safe restart keeps its
  callbacks, its late interim result is published, and \<open>stop\<close> returns at once because
  the handle is gone.
\<close>

theorem stop_always_clears_counterexample:
  "recognition (manager (run
      [(0, Call_start), (100, Timer_fires 0 None), (150, Engine_onstart 0),
       (6000, Interval_fires 0), (6100, Timer_fires 2 None), (6150, Call_destroy),
       (6200, Engine_onresult 0
          \<lparr>resultIndex = 0, results = [\<lparr>alternatives = [''hi''], isFinal = False\<rparr>]\<rparr>)]
      (boot ApiAvailable [] 0))) = None \<and>
   currentText (st_recognition (stateManager (snd (stop 6300 (run
      [(0, Call_start), (100, Timer_fires 0 None), (150, Engine_onstart 0),
       (6000, Interval_fires 0), (6100, Timer_fires 2 None), (6150, Call_destroy),
       (6200, Engine_onresult 0
          \<lparr>resultIndex = 0, results = [\<lparr>alternatives = [''hi''], isFinal = False\<rparr>]\<rparr>)]
      (boot ApiAvailable [] 0)))))) = ''hi''"
  by (simp add: world_defs ctl_defs basic_defs Let_def)

section \<open>Result callback: results of a replaced instance\<close>

text \<open>
  What the test of the fence does when the two identifiers differ: the callback leaves
  the store as it was, sends nothing, schedules nothing and leaves the window of
  processed texts alone.
\<close>

lemma handleResult_from_mismatch:
  "sid \<noteq> sessionId (manager w) \<Longrightarrow>
   stateManager (handleResult_from sid ev now w) = stateManager w \<and>
   notifications (handleResult_from sid ev now w) = notifications w \<and>
   timers (handleResult_from sid ev now w) = timers w \<and>
   processedTexts (manager (handleResult_from sid ev now w)) = processedTexts (manager w)"
  by (simp add: handleResult_from_def Let_def split: option.splits prod.splits)

text \<open>
  In \<open>handleResult\<close> the identifier is read and compared within the same run of the
  callback, and the statements in between do not write it: the test never fails, and the
  callback is its body without the test.
\<close>

lemma handleResult_fence_never_fires:
  "handleResult ev now w =
     (let w1 = w\<lparr>manager := (manager w)\<lparr>lastResultTime := now\<rparr>\<rparr>
      in case collect_transcripts (drop (resultIndex ev) (results ev)) ([], []) of
           None \<Rightarrow> w1
         | Some (interimTranscript, finalTranscript) \<Rightarrow>
             (let w2 = (if interimTranscript \<noteq> []
                        then trigger (InterimTextRecognized interimTranscript)
                               (updateRecognitionState
                                  (\<lambda>r. r\<lparr>interimText := interimTranscript,
                                          currentText := finalTranscript @ interimTranscript\<rparr>)
                                  w1)
                        else w1)
              in if finalTranscript \<noteq> [] then processFinalResult finalTranscript now w2
                 else w2))"
  by (simp add: handleResult_def handleResult_from_def Let_def split: option.splits prod.splits)


section \<open>start\<close>








section \<open>changeLanguage\<close>

lemma changeLanguage_idle:
  "recognition (manager w) = Some e \<Longrightarrow> \<not> isRecognizing (manager w) \<Longrightarrow>
   changeLanguage l now w = (True, w\<lparr>manager := (manager w)\<lparr>recognition := Some (e\<lparr>lang := l\<rparr>)\<rparr>\<rparr>)"
  by (simp add: changeLanguage_def Let_def)

lemma changeLanguage_active:
  "recognition (manager w) = Some e \<Longrightarrow> isRecognizing (manager w) \<Longrightarrow>
   changeLanguage l now w =
     (True,
      (snd (stop now w))
        \<lparr>manager := (manager (snd (stop now w)))\<lparr>recognition := Some (e\<lparr>lang := l\<rparr>)\<rparr>,
         timers := timers (snd (stop now w)) @
           [(now + max 0 (restartDelay (config (manager w))), Task_changeLanguageRestart)]\<rparr>)"
  by (simp add: changeLanguage_def Let_def stop_with_handle setTimeout_def)

lemma changeLanguage_idle_then_start:
  assumes "recognition (manager w) = Some e" and "\<not> isRecognizing (manager w)"
    and "t2 + max 0 (restartDelay (config (manager w))) \<le> t3"
  shows "engineCalls (run [(t1, Call_changeLanguage l), (t2, Call_start),
            (t3, Timer_fires (length (timers w)) None)] w) =
         engineCalls w @ [EngineStop (eid e),
           EngineStart (eid e) (language_or_default (cfg_language (stateManager w)))]"
  using assms
  by (simp add: step_def changeLanguage_idle start_idle run_task_def engineStart_task_idle)

lemma changeLanguage_active_then_restart:
  assumes "recognition (manager w) = Some e" and "isRecognizing (manager w)"
    and "t1 + max 0 (restartDelay (config (manager w))) \<le> t2"
    and "t2 + max 0 (restartDelay (config (manager w))) \<le> t3"
  shows "engineCalls (run [(t1, Call_changeLanguage l),
            (t2, Timer_fires (length (timers w) + 4) None),
            (t3, Timer_fires (length (timers w) + 4) None)] w) =
         engineCalls w @ [EngineStop (eid e), EngineStop (eid e),
           EngineStart (eid e) (language_or_default (cfg_language (stateManager w)))]"
  using assms
  by (simp add: step_def changeLanguage_active stop_with_handle start_idle run_task_def
      engineStart_task_idle nth_append)

text \<open>
  What \<open>changeLanguage\<close> does.  When recognition is not active, \<open>changeLanguage l\<close> only
  writes \<open>l\<close> to the handle's \<open>lang\<close>.  When it is active, \<open>changeLanguage l\<close> is \<open>stop\<close>,
  then \<open>l\<close> written to the handle, then a task due at \<open>now + restartDelay\<close> that calls
  \<open>start\<close>.  In both cases the engine start that follows (after one more \<open>restartDelay\<close>)
  is made with the language that the store holds (\<^verbatim>\<open>en-US\<close> if it holds none or the empty
  string), whatever \<open>l\<close> is; \<open>changeLanguage\<close> does not write the store's language.
\<close>

lemma changeLanguage_then_engine_start:
  "(recognition (manager w) = Some e \<and> \<not> isRecognizing (manager w) \<longrightarrow>
      changeLanguage l ta w =
        (True, w\<lparr>manager := (manager w)\<lparr>recognition := Some (e\<lparr>lang := l\<rparr>)\<rparr>\<rparr>)) \<and>
   (recognition (manager w) = Some e \<and> \<not> isRecognizing (manager w) \<and>
    tb + max 0 (restartDelay (config (manager w))) \<le> tc \<longrightarrow>
      engineCalls (run [(ta, Call_changeLanguage l), (tb, Call_start),
          (tc, Timer_fires (length (timers w)) None)] w) =
        engineCalls w @ [EngineStop (eid e),
          EngineStart (eid e)
            (case cfg_language (stateManager w) of
               None \<Rightarrow> ''en-US''
             | Some x \<Rightarrow> if x = [] then ''en-US'' else x)]) \<and>
   (recognition (manager w) = Some e \<and> isRecognizing (manager w) \<longrightarrow>
      changeLanguage l ta w =
        (True,
         (snd (stop ta w))
           \<lparr>manager := (manager (snd (stop ta w)))\<lparr>recognition := Some (e\<lparr>lang := l\<rparr>)\<rparr>,
            timers := timers (snd (stop ta w)) @
              [(ta + max 0 (restartDelay (config (manager w))), Task_changeLanguageRestart)]\<rparr>)) \<and>
   (recognition (manager w) = Some e \<and> isRecognizing (manager w) \<and>
    ta + max 0 (restartDelay (config (manager w))) \<le> tb \<and>
    tb + max 0 (restartDelay (config (manager w))) \<le> tc \<longrightarrow>
      engineCalls (run [(ta, Call_changeLanguage l),
          (tb, Timer_fires (length (timers w) + 4) None),
          (tc, Timer_fires (length (timers w) + 4) None)] w) =
        engineCalls w @ [EngineStop (eid e), EngineStop (eid e),
          EngineStart (eid e)
            (case cfg_language (stateManager w) of
               None \<Rightarrow> ''en-US''
             | Some x \<Rightarrow> if x = [] then ''en-US'' else x)]) \<and>
   cfg_language (stateManager (snd (changeLanguage l ta w))) = cfg_language (stateManager w)"
proof -
  have "cfg_language (stateManager (snd (changeLanguage l ta w))) = cfg_language (stateManager w)"
    by (simp add: changeLanguage_def stop_def basic_defs Let_def split: option.splits)
  then show ?thesis
    using changeLanguage_idle [of w e l ta] changeLanguage_active [of w e l ta]
      changeLanguage_idle_then_start [of w e tb tc ta l, unfolded language_or_default_def]
      changeLanguage_active_then_restart [of w e ta tb tc l, unfolded language_or_default_def]
    by simp
qed

text \<open>
  C7.  The claim is what \<open>changeLanguage\<close> is written for (its comment: change the
  recognition language; when recognising, stop, change the language, resume), and the
  code does not keep it.  \<open>changeLanguage\<close> writes the language to the handle only; the
  deferred engine start overwrites the handle's language with the store's.

  With \<^verbatim>\<open>en-GB\<close> restored from the saved settings and the controller idle,
  \<open>changeLanguage\<close> of \<^verbatim>\<open>en-US\<close> writes \<^verbatim>\<open>en-US\<close> to the handle, and the engine start that
  follows the next \<open>start\<close> runs with \<^verbatim>\<open>en-GB\<close>.  With recognition active, \<open>changeLanguage\<close>
  of \<^verbatim>\<open>en-US\<close> stops the engine and starts it again after twice \<open>restartDelay\<close>, with
  \<^verbatim>\<open>en-GB\<close> again.  With nothing saved (the store holds \<^verbatim>\<open>en-US\<close>), after
  \<open>changeLanguage\<close> of \<^verbatim>\<open>en-GB\<close> the next engine start runs with \<^verbatim>\<open>en-US\<close>.
\<close>

theorem changeLanguage_overwritten_by_store:
  "cfg_language (stateManager (boot_saved (Some ''en-GB'') None ApiAvailable [] 0)) =
     Some ''en-GB'' \<and>
   map_option lang (recognition (manager (snd (changeLanguage ''en-US'' 10
     (boot_saved (Some ''en-GB'') None ApiAvailable [] 0))))) = Some ''en-US'' \<and>
   engineCalls (run
      [(10, Call_changeLanguage ''en-US''), (20, Call_start), (120, Timer_fires 0 None)]
      (boot_saved (Some ''en-GB'') None ApiAvailable [] 0)) =
     [EngineStop 0, EngineStart 0 ''en-GB''] \<and>
   isRecognizing (manager (run
      [(0, Call_start), (100, Timer_fires 0 None), (150, Engine_onstart 0)]
      (boot_saved (Some ''en-GB'') None ApiAvailable [] 0))) \<and>
   engineCalls (run
      [(0, Call_start), (100, Timer_fires 0 None), (150, Engine_onstart 0),
       (1000, Call_changeLanguage ''en-US''), (1100, Timer_fires 4 None),
       (1200, Timer_fires 4 None)]
      (boot_saved (Some ''en-GB'') None ApiAvailable [] 0)) =
     [EngineStop 0, EngineStart 0 ''en-GB'', EngineStop 0, EngineStop 0,
      EngineStart 0 ''en-GB''] \<and>
   cfg_language (stateManager (boot ApiAvailable [] 0)) = Some ''en-US'' \<and>
   map_option lang (recognition (manager (snd (changeLanguage ''en-GB'' 10
     (boot ApiAvailable [] 0))))) = Some ''en-GB'' \<and>
   engineCalls (run
      [(10, Call_changeLanguage ''en-GB''), (20, Call_start), (120, Timer_fires 0 None)]
      (boot ApiAvailable [] 0)) = [EngineStop 0, EngineStart 0 ''en-US'']"
  by (simp add: world_defs ctl_defs basic_defs Let_def)

section \<open>What the callbacks never do\<close>

text \<open>The manual-stop flag, once set, is cleared by nothing but the end callback.\<close>

lemma manualStop_start: "manualStop (manager (snd (start now w))) = manualStop (manager w)"
  by (simp add: start_def initializeRecognition_def basic_defs Let_def split: option.splits api.splits)

lemma manualStop_stop: "manualStop (manager w) \<Longrightarrow> manualStop (manager (snd (stop now w)))"
  by (simp add: stop_def basic_defs Let_def split: option.splits)

lemma manualStop_handleResult: "manualStop (manager (handleResult ev now w)) = manualStop (manager w)"
  by (simp add: handleResult_def handleResult_from_def processFinalResult_def basic_defs Let_def
      split: option.splits prod.splits)

lemma manualStop_handleError: "manualStop (manager w) \<Longrightarrow> manualStop (manager (handleError err now w))"
  by (simp add: handleError_def stop_def basic_defs Let_def split: option.splits)

lemma manualStop_run_task:
  "manualStop (manager (run_task thrown tk now w)) = manualStop (manager w)"
  by (cases tk)
    (simp_all add: run_task_def manualStop_start engineStart_task_def safeRestartResume_task_def
      initializeRecognition_def basic_defs Let_def split: option.splits api.splits)

lemma manualStop_step:
  "manualStop (manager w) \<Longrightarrow> \<not> is_onend e \<Longrightarrow> manualStop (manager (step now e w))"
  by (cases e)
    (simp_all add: step_def manualStop_start manualStop_stop manualStop_handleResult
      manualStop_handleError manualStop_run_task changeLanguage_def destroy_def onstart_def
      watchdog_tick_def safeRestart_def basic_defs Let_def split: option.splits)

lemma manualStop_run:
  "manualStop (manager w) \<Longrightarrow> list_all (\<lambda>x. \<not> is_onend (snd x)) es \<Longrightarrow>
   manualStop (manager (run es w))"
  by (induction es arbitrary: w) (auto simp: manualStop_step)

lemma onend_after_manualStop:
  "manualStop (manager w) \<Longrightarrow>
   timers (onend now w) = timers w \<and> engineCalls (onend now w) = engineCalls w \<and>
   \<not> isRecognizing (manager (onend now w)) \<and>
   \<not> isActive (st_recognition (stateManager (onend now w))) \<and>
   \<not> isListening (st_recognition (stateManager (onend now w)))"
  by (simp add: onend_def basic_defs Let_def)

text \<open>
  \<open>isRecognizing\<close> is set by nothing but the start callback of an engine; while it is
  clear, no tick of the watchdog calls \<open>safeRestart\<close>.
\<close>

lemma isRecognizing_start:
  "isRecognizing (manager (snd (start now w))) \<Longrightarrow> isRecognizing (manager w)"
  by (simp add: start_def initializeRecognition_def basic_defs Let_def
      split: option.splits api.splits if_splits)

lemma isRecognizing_stop:
  "isRecognizing (manager (snd (stop now w))) \<Longrightarrow> isRecognizing (manager w)"
  by (simp add: stop_def basic_defs Let_def split: option.splits)

lemma isRecognizing_handleResult:
  "isRecognizing (manager (handleResult ev now w)) = isRecognizing (manager w)"
  by (simp add: handleResult_def handleResult_from_def processFinalResult_def basic_defs Let_def
      split: option.splits prod.splits)

lemma isRecognizing_handleError:
  "isRecognizing (manager (handleError err now w)) \<Longrightarrow> isRecognizing (manager w)"
  by (simp add: handleError_def stop_def basic_defs Let_def split: option.splits if_splits)

lemma isRecognizing_safeRestart: "\<not> isRecognizing (manager (safeRestart now w))"
  by (simp add: safeRestart_def basic_defs Let_def split: option.splits)

lemma isRecognizing_run_task:
  "isRecognizing (manager (run_task thrown tk now w)) \<Longrightarrow> isRecognizing (manager w)"
proof (cases tk)
  case (Task_safeRestartResume l)
  assume a: "isRecognizing (manager (run_task thrown tk now w))"
  let ?w1 = "snd (initializeRecognition now w)"
  let ?w2 = "case recognition (manager ?w1) of None \<Rightarrow> ?w1
     | Some e \<Rightarrow> ?w1\<lparr>manager := (manager ?w1)\<lparr>recognition := Some (e\<lparr>lang := to_DOMString l\<rparr>)\<rparr>\<rparr>"
  from a Task_safeRestartResume have "isRecognizing (manager (snd (start now ?w2)))"
    by (simp add: run_task_def safeRestartResume_task_def Let_def)
  then have "isRecognizing (manager ?w2)" by (rule isRecognizing_start)
  then show ?thesis
    by (simp add: initializeRecognition_def basic_defs Let_def split: option.splits api.splits)
qed (auto simp: run_task_def engineStart_task_def basic_defs Let_def
      dest: isRecognizing_start split: option.splits if_splits)

lemma isRecognizing_step:
  "\<not> is_onstart e \<Longrightarrow> isRecognizing (manager (step now e w)) \<Longrightarrow> isRecognizing (manager w)"
  by (cases e)
    (auto simp: step_def isRecognizing_handleResult changeLanguage_def destroy_def onend_def
      watchdog_tick_def isRecognizing_safeRestart basic_defs Let_def
      dest: isRecognizing_start isRecognizing_stop isRecognizing_handleError isRecognizing_run_task
      split: option.splits if_splits)

lemma safeRestarts_idle:
  "\<not> isRecognizing (manager w) \<Longrightarrow> list_all (\<lambda>x. \<not> is_onstart (snd x)) es \<Longrightarrow>
   safeRestarts es w = 0"
proof (induction es arbitrary: w)
  case Nil
  then show ?case by simp
next
  case (Cons x es)
  obtain now e where x: "x = (now, e)" by (cases x)
  with Cons.prems have "\<not> isRecognizing (manager (step now e w))"
    using isRecognizing_step by auto
  moreover have "\<not> triggers_safeRestart now e w"
    using Cons.prems(1) by (simp add: triggers_safeRestart_def split: event.splits)
  ultimately show ?case using Cons x by simp
qed

section \<open>Watchdog and safe restart\<close>

lemma safeRestart_with_handle:
  "recognition (manager w) = Some e \<Longrightarrow>
   safeRestart now w =
     w\<lparr>manager := (manager w)\<lparr>isRecognizing := False, watchdogTimer := None, errorCount := 0\<rparr>,
       engineCalls := engineCalls w @ [EngineStop (eid e)],
       stateManager := (stateManager w)
         \<lparr>st_recognition := (st_recognition (stateManager w))
            \<lparr>isActive := False, isListening := False, currentText := [], interimText := [],
             st_errorCount := 0\<rparr>\<rparr>,
       notifications := notifications w @
         [RecognitionStateChanged ((st_recognition (stateManager w))
            \<lparr>isActive := False, isListening := False, currentText := [], interimText := []\<rparr>),
          ClearInterimText,
          RecognitionStateChanged ((st_recognition (stateManager w))
            \<lparr>isActive := False, isListening := False, currentText := [], interimText := [],
             st_errorCount := 0\<rparr>)],
       timers := timers w @
         [(now + 10, Task_clearInterim), (now + 50, Task_clearInterim),
          (now + max 0 (restartDelay (config (manager w))),
           Task_safeRestartResume (cfg_language (stateManager w)))]\<rparr>"
  by (simp add: safeRestart_def basic_defs Let_def)

lemma tick_triggers:
  "triggers_safeRestart now (Interval_fires h) w \<Longrightarrow>
   step now (Interval_fires h) w = safeRestart now w"
  by (auto simp: triggers_safeRestart_def step_def watchdog_tick_def Let_def)

lemma tick_quiet:
  "watchdogTimer (manager w) = Some h \<Longrightarrow> \<not> triggers_safeRestart now (Interval_fires h) w \<Longrightarrow>
   step now (Interval_fires h) w = w"
  by (auto simp: triggers_safeRestart_def step_def watchdog_tick_def Let_def)

lemma one_safeRestart:
  assumes "triggers_safeRestart now (Interval_fires h) w"
    and "list_all (\<lambda>x. \<not> is_onstart (snd x)) es"
  shows "safeRestarts ((now, Interval_fires h) # es) w = 1"
proof -
  have "\<not> isRecognizing (manager (step now (Interval_fires h) w))"
    by (simp add: tick_triggers [OF assms(1)] isRecognizing_safeRestart)
  from safeRestarts_idle [OF this assms(2)] assms(1) show ?thesis by simp
qed

lemma safeRestartResume_new_instance:
  "speechApi w = ApiAvailable \<Longrightarrow> \<not> isRecognizing (manager w) \<Longrightarrow>
   run_task thrown (Task_safeRestartResume l) now w =
     w\<lparr>manager := (manager w)
          \<lparr>recognition := Some
             \<lparr>eid = engines w, lang = to_DOMString l,
              e_continuous = continuous (config (manager w)),
              e_interimResults = interimResults (config (manager w)),
              e_maxAlternatives = maxAlternatives (config (manager w))\<rparr>,
           isRecognizing := False, watchdogTimer := None\<rparr>,
        engines := Suc (engines w),
        handlers := handlers w @ [engines w],
        engineCalls := engineCalls w @ [EngineStop (engines w)],
        timers := timers w @ [(now + max 0 (restartDelay (config (manager w))), Task_engineStart)]\<rparr>"
  by (simp add: run_task_def safeRestartResume_task_def initializeRecognition_def start_def
      basic_defs Let_def)

lemma run_task_engineStart:
  "run_task thrown Task_engineStart now w = engineStart_task thrown now w"
  by (simp add: run_task_def)

lemma safeRestart_then_engine_start:
  assumes "recognition (manager w) = Some e" and "speechApi w = ApiAvailable"
    and "triggers_safeRestart ta (Interval_fires h) w"
    and "ta + max 0 (restartDelay (config (manager w))) \<le> tb"
    and "tb + max 0 (restartDelay (config (manager w))) \<le> tc"
  shows "engineCalls (run [(ta, Interval_fires h),
            (tb, Timer_fires (length (timers w) + 2) None),
            (tc, Timer_fires (length (timers w) + 2) None)] w) =
         engineCalls w @ [EngineStop (eid e), EngineStop (engines w),
           EngineStart (engines w) (language_or_default (cfg_language (stateManager w)))]"
proof -
  have s1: "step ta (Interval_fires h) w = safeRestart ta w"
    by (rule tick_triggers [OF assms(3)])
  show ?thesis
    using assms(1,2,4,5)
    by (simp add: s1 step_def [of _ "Timer_fires _ _"] safeRestart_with_handle
        safeRestartResume_new_instance run_task_engineStart engineStart_task_def nth_append Let_def)
qed

text \<open>In every world reached from the initial one, a handle exists only with the API.\<close>

lemma api_start:
  "recognition (manager w) \<noteq> None \<longrightarrow> speechApi w = ApiAvailable \<Longrightarrow>
   recognition (manager (snd (start now w))) \<noteq> None \<longrightarrow> speechApi (snd (start now w)) = ApiAvailable"
  by (simp add: start_def initializeRecognition_def basic_defs Let_def
      split: option.splits api.splits)

lemma api_stop:
  "recognition (manager w) \<noteq> None \<longrightarrow> speechApi w = ApiAvailable \<Longrightarrow>
   recognition (manager (snd (stop now w))) \<noteq> None \<longrightarrow> speechApi (snd (stop now w)) = ApiAvailable"
  by (simp add: stop_def basic_defs Let_def split: option.splits)

lemma api_handleResult:
  "recognition (manager (handleResult ev now w)) = recognition (manager w) \<and>
   speechApi (handleResult ev now w) = speechApi w"
  by (simp add: handleResult_def handleResult_from_def processFinalResult_def basic_defs Let_def
      split: option.splits prod.splits)

lemma api_handleError:
  "recognition (manager (handleError err now w)) = recognition (manager w) \<and>
   speechApi (handleError err now w) = speechApi w"
  by (simp add: handleError_def stop_def basic_defs Let_def split: option.splits)

lemma api_run_task:
  "recognition (manager w) \<noteq> None \<longrightarrow> speechApi w = ApiAvailable \<Longrightarrow>
   recognition (manager (run_task thrown tk now w)) \<noteq> None \<longrightarrow>
   speechApi (run_task thrown tk now w) = ApiAvailable"
  by (cases tk)
    (auto simp: run_task_def start_def engineStart_task_def safeRestartResume_task_def
      initializeRecognition_def basic_defs Let_def split: option.splits api.splits)

lemma api_step:
  "recognition (manager w) \<noteq> None \<longrightarrow> speechApi w = ApiAvailable \<Longrightarrow>
   recognition (manager (step now e w)) \<noteq> None \<longrightarrow> speechApi (step now e w) = ApiAvailable"
  using api_start [of w now] api_stop [of w now] api_handleResult [of _ now w]
    api_handleError [of _ now w]
    api_run_task [of "w\<lparr>timers := take _ (timers w) @ drop (Suc _) (timers w)\<rparr>" _ _ now]
  by (cases e)
    (auto simp: step_def changeLanguage_def destroy_def stop_def onstart_def onend_def
      watchdog_tick_def safeRestart_def basic_defs Let_def split: option.splits)

lemma api_run:
  "recognition (manager w) \<noteq> None \<longrightarrow> speechApi w = ApiAvailable \<Longrightarrow>
   recognition (manager (run es w)) \<noteq> None \<longrightarrow> speechApi (run es w) = ApiAvailable"
proof (induction es arbitrary: w)
  case Nil
  then show ?case by simp
next
  case (Cons x es)
  obtain now e where x: "x = (now, e)" by (cases x)
  from Cons.IH [OF api_step [OF Cons.prems, of now e]] x show ?case by simp
qed

lemma api_boot:
  "recognition (manager (boot a msgs now)) \<noteq> None \<longrightarrow> speechApi (boot a msgs now) = ApiAvailable"
  by (cases a)
    (simp_all add: boot_def initializeRecognition_def new_manager_def basic_defs Let_def)

text \<open>
  C2.  On a tick of the live watchdog interval while recognition is active: if the time
  since the last result exceeds \<open>deadTime\<close> or the time since the session started exceeds
  \<open>maxSessionTime\<close>, the tick is \<open>safeRestart\<close>, and in every continuation in which no
  engine reports a start, that is the only safe restart (the count over the whole
  sequence is 1); if neither is exceeded the tick changes nothing.  \<open>safeRestart\<close> tells
  the engine to stop, clears \<open>isRecognizing\<close> and the watchdog, sets the error counter to
  0 and publishes that as its last event, and schedules the resume task at
  \<open>now + restartDelay\<close> with the store's language of that moment.  The resume task, with
  the browser's API present, replaces the handle by a new instance, writes the captured
  language to it (the string \<^verbatim>\<open>undefined\<close> if the store had none) and calls \<open>start\<close>,
  which schedules the deferred engine start.  Run to the end, the new instance is started
  with the language that the store holds, and with \<^verbatim>\<open>en-US\<close> if the store holds none or the
  empty string.  In the worlds reached from the initial one the API is present whenever
  there is a handle.
\<close>

theorem watchdog_safeRestart:
  "(watchdogTimer (manager w) = Some h \<and> isRecognizing (manager w) \<and>
    (now - lastResultTime (manager w) > deadTime (config (manager w)) \<or>
     now - sessionStartTime (manager w) > maxSessionTime (config (manager w))) \<longrightarrow>
      step now (Interval_fires h) w = safeRestart now w \<and>
      (list_all (\<lambda>x. \<not> is_onstart (snd x)) es \<longrightarrow>
         safeRestarts ((now, Interval_fires h) # es) w = 1)) \<and>
   (watchdogTimer (manager w) = Some h \<and> isRecognizing (manager w) \<and>
    \<not> (now - lastResultTime (manager w) > deadTime (config (manager w)) \<or>
       now - sessionStartTime (manager w) > maxSessionTime (config (manager w))) \<longrightarrow>
      step now (Interval_fires h) w = w) \<and>
   (recognition (manager w) = Some e \<longrightarrow>
      errorCount (manager (safeRestart now w)) = 0 \<and>
      st_errorCount (st_recognition (stateManager (safeRestart now w))) = 0 \<and>
      last (notifications (safeRestart now w)) =
        RecognitionStateChanged (st_recognition (stateManager (safeRestart now w))) \<and>
      \<not> isRecognizing (manager (safeRestart now w)) \<and>
      watchdogTimer (manager (safeRestart now w)) = None \<and>
      engineCalls (safeRestart now w) = engineCalls w @ [EngineStop (eid e)] \<and>
      timers (safeRestart now w) =
        timers w @
          [(now + 10, Task_clearInterim), (now + 50, Task_clearInterim),
           (now + max 0 (restartDelay (config (manager w))),
            Task_safeRestartResume (cfg_language (stateManager w)))]) \<and>
   (speechApi v = ApiAvailable \<and> \<not> isRecognizing (manager v) \<longrightarrow>
      run_task thrown (Task_safeRestartResume l) tb v =
        v\<lparr>manager := (manager v)
             \<lparr>recognition := Some
                \<lparr>eid = engines v, lang = (case l of None \<Rightarrow> ''undefined'' | Some x \<Rightarrow> x),
                 e_continuous = continuous (config (manager v)),
                 e_interimResults = interimResults (config (manager v)),
                 e_maxAlternatives = maxAlternatives (config (manager v))\<rparr>,
              isRecognizing := False, watchdogTimer := None\<rparr>,
           engines := Suc (engines v),
           handlers := handlers v @ [engines v],
           engineCalls := engineCalls v @ [EngineStop (engines v)],
           timers := timers v @
             [(tb + max 0 (restartDelay (config (manager v))), Task_engineStart)]\<rparr>) \<and>
   (recognition (manager w) = Some e \<and> speechApi w = ApiAvailable \<and>
    watchdogTimer (manager w) = Some h \<and> isRecognizing (manager w) \<and>
    (now - lastResultTime (manager w) > deadTime (config (manager w)) \<or>
     now - sessionStartTime (manager w) > maxSessionTime (config (manager w))) \<and>
    now + max 0 (restartDelay (config (manager w))) \<le> tb \<and>
    tb + max 0 (restartDelay (config (manager w))) \<le> tc \<longrightarrow>
      engineCalls (run [(now, Interval_fires h),
          (tb, Timer_fires (length (timers w) + 2) None),
          (tc, Timer_fires (length (timers w) + 2) None)] w) =
        engineCalls w @ [EngineStop (eid e), EngineStop (engines w),
          EngineStart (engines w)
            (case cfg_language (stateManager w) of
               None \<Rightarrow> ''en-US''
             | Some x \<Rightarrow> if x = [] then ''en-US'' else x)]) \<and>
   (recognition (manager (run past (boot a msgs born))) \<noteq> None \<longrightarrow>
      speechApi (run past (boot a msgs born)) = ApiAvailable)"
proof -
  note api = api_run [OF api_boot, of past a msgs born]
  have trig: "triggers_safeRestart now (Interval_fires h) w =
    (watchdogTimer (manager w) = Some h \<and> isRecognizing (manager w) \<and>
      (now - lastResultTime (manager w) > deadTime (config (manager w)) \<or>
       now - sessionStartTime (manager w) > maxSessionTime (config (manager w))))"
    by (simp add: triggers_safeRestart_def)
  have C: "errorCount (manager (safeRestart now w)) = 0 \<and>
      st_errorCount (st_recognition (stateManager (safeRestart now w))) = 0 \<and>
      last (notifications (safeRestart now w)) =
        RecognitionStateChanged (st_recognition (stateManager (safeRestart now w))) \<and>
      \<not> isRecognizing (manager (safeRestart now w)) \<and>
      watchdogTimer (manager (safeRestart now w)) = None \<and>
      engineCalls (safeRestart now w) = engineCalls w @ [EngineStop (eid e)] \<and>
      timers (safeRestart now w) =
        timers w @
          [(now + 10, Task_clearInterim), (now + 50, Task_clearInterim),
           (now + max 0 (restartDelay (config (manager w))),
            Task_safeRestartResume (cfg_language (stateManager w)))]"
    if "recognition (manager w) = Some e"
    by (simp add: safeRestart_with_handle [OF that])
  show ?thesis
    using tick_triggers [of now h w] tick_quiet [of w h now] one_safeRestart [of now h w es] C
      safeRestartResume_new_instance [of v thrown l tb, unfolded to_DOMString_def]
      safeRestart_then_engine_start [of w e now h tb tc, unfolded language_or_default_def] api
    unfolding trig by blast
qed

theorem watchdog_safeRestart_witness:
  "watchdogTimer (manager (onstart 5 (boot_saved (Some ''en-GB'') None ApiAvailable [] 0))) = Some 0 \<and>
   isRecognizing (manager (onstart 5 (boot_saved (Some ''en-GB'') None ApiAvailable [] 0))) \<and>
   6000 - lastResultTime (manager (onstart 5 (boot_saved (Some ''en-GB'') None ApiAvailable [] 0)))
     > deadTime (config (manager (onstart 5 (boot_saved (Some ''en-GB'') None ApiAvailable [] 0)))) \<and>
   recognition (manager (onstart 5 (boot_saved (Some ''en-GB'') None ApiAvailable [] 0))) =
     Some \<lparr>eid = 0, lang = ''en-GB'', e_continuous = True, e_interimResults = True,
           e_maxAlternatives = 1\<rparr> \<and>
   speechApi (onstart 5 (boot_saved (Some ''en-GB'') None ApiAvailable [] 0)) = ApiAvailable \<and>
   list_all (\<lambda>x. \<not> is_onstart (snd x)) [(7000, Interval_fires 0), (7100, Engine_onend 0)] \<and>
   step 6000 (Interval_fires 0) (onstart 5 (boot_saved (Some ''en-GB'') None ApiAvailable [] 0)) =
     safeRestart 6000 (onstart 5 (boot_saved (Some ''en-GB'') None ApiAvailable [] 0)) \<and>
   safeRestarts [(6000, Interval_fires 0), (7000, Interval_fires 0), (7100, Engine_onend 0)]
     (onstart 5 (boot_saved (Some ''en-GB'') None ApiAvailable [] 0)) = 1 \<and>
   errorCount (manager (safeRestart 6000 (onstart 5 (boot_saved (Some ''en-GB'') None ApiAvailable [] 0)))) = 0 \<and>
   step 1000 (Interval_fires 0) (onstart 5 (boot_saved (Some ''en-GB'') None ApiAvailable [] 0)) =
     onstart 5 (boot_saved (Some ''en-GB'') None ApiAvailable [] 0) \<and>
   \<not> isRecognizing (manager (boot ApiAvailable [] 0)) \<and>
   map_option (\<lambda>x. (eid x, lang x)) (recognition (manager
     (run_task None (Task_safeRestartResume (Some ''en-GB'')) 6100
        (boot ApiAvailable [] 0)))) = Some (1, ''en-GB'') \<and>
   engineCalls (run [(6000, Interval_fires 0), (6100, Timer_fires 2 None), (6200, Timer_fires 2 None)]
     (onstart 5 (boot_saved (Some ''en-GB'') None ApiAvailable [] 0))) =
     [EngineStop 0, EngineStop 1, EngineStart 1 ''en-GB'']"
proof -
  let ?W = "onstart 5 (boot_saved (Some ''en-GB'') None ApiAvailable [] 0)"
  let ?E = "\<lparr>eid = 0, lang = ''en-GB'', e_continuous = True, e_interimResults = True,
           e_maxAlternatives = 1\<rparr>"
  let ?es = "[(7000, Interval_fires 0), (7100, Engine_onend 0)]"
  have h: "watchdogTimer (manager ?W) = Some 0" "isRecognizing (manager ?W)"
    "6000 - lastResultTime (manager ?W) > deadTime (config (manager ?W))"
    "recognition (manager ?W) = Some ?E" "speechApi ?W = ApiAvailable"
    "engineCalls ?W = []" "engines ?W = 1" "timers ?W = []"
    "cfg_language (stateManager ?W) = Some ''en-GB''"
    "restartDelay (config (manager ?W)) = 100"
    by (simp_all add: world_defs onstart_def initializeRecognition_def basic_defs Let_def)
  have q: "\<not> (1000 - lastResultTime (manager ?W) > deadTime (config (manager ?W)) \<or>
       1000 - sessionStartTime (manager ?W) > maxSessionTime (config (manager ?W)))"
    by (simp add: world_defs onstart_def initializeRecognition_def basic_defs Let_def)
  have l: "list_all (\<lambda>x. \<not> is_onstart (snd x)) ?es" by simp
  have b: "speechApi (boot ApiAvailable [] 0) = ApiAvailable"
    "\<not> isRecognizing (manager (boot ApiAvailable [] 0))"
    "engines (boot ApiAvailable [] 0) = 1"
    by (simp_all add: world_defs initializeRecognition_def)
  note t = watchdog_safeRestart [where w = ?W and h = 0 and now = 6000 and es = ?es and e = ?E
      and v = "boot ApiAvailable [] 0" and thrown = None and l = "Some ''en-GB''"
      and tb = 6100 and tc = 6200]
  note u = watchdog_safeRestart [where w = ?W and h = 0 and now = 1000 and es = ?es and e = ?E
      and v = "boot ApiAvailable [] 0" and thrown = None and l = "Some ''en-GB''"
      and tb = 6100 and tc = 6200]
  from t h l have A: "step 6000 (Interval_fires 0) ?W = safeRestart 6000 ?W"
    "safeRestarts ((6000, Interval_fires 0) # ?es) ?W = 1"
    "errorCount (manager (safeRestart 6000 ?W)) = 0"
    by blast+
  from u h q have B: "step 1000 (Interval_fires 0) ?W = ?W" by blast
  from t b have "run_task None (Task_safeRestartResume (Some ''en-GB'')) 6100 (boot ApiAvailable [] 0) =
    (boot ApiAvailable [] 0)\<lparr>manager := (manager (boot ApiAvailable [] 0))
             \<lparr>recognition := Some
                \<lparr>eid = engines (boot ApiAvailable [] 0), lang = (case Some ''en-GB'' of None \<Rightarrow> ''undefined'' | Some x \<Rightarrow> x),
                 e_continuous = continuous (config (manager (boot ApiAvailable [] 0))),
                 e_interimResults = interimResults (config (manager (boot ApiAvailable [] 0))),
                 e_maxAlternatives = maxAlternatives (config (manager (boot ApiAvailable [] 0)))\<rparr>,
              isRecognizing := False, watchdogTimer := None\<rparr>,
           engines := Suc (engines (boot ApiAvailable [] 0)),
           handlers := handlers (boot ApiAvailable [] 0) @ [engines (boot ApiAvailable [] 0)],
           engineCalls := engineCalls (boot ApiAvailable [] 0) @ [EngineStop (engines (boot ApiAvailable [] 0))],
           timers := timers (boot ApiAvailable [] 0) @
             [(6100 + max 0 (restartDelay (config (manager (boot ApiAvailable [] 0)))), Task_engineStart)]\<rparr>"
    by blast
  then have C: "map_option (\<lambda>x. (eid x, lang x)) (recognition (manager
     (run_task None (Task_safeRestartResume (Some ''en-GB'')) 6100
        (boot ApiAvailable [] 0)))) = Some (1, ''en-GB'')"
    using b(3) by simp
  have "6000 + max 0 (restartDelay (config (manager ?W))) \<le> 6100"
    "6100 + max 0 (restartDelay (config (manager ?W))) \<le> 6200"
    using h(10) by simp_all
  with t h have "engineCalls (run [(6000, Interval_fires 0),
          (6100, Timer_fires (length (timers ?W) + 2) None),
          (6200, Timer_fires (length (timers ?W) + 2) None)] ?W) =
        engineCalls ?W @ [EngineStop (eid ?E), EngineStop (engines ?W),
          EngineStart (engines ?W)
            (case cfg_language (stateManager ?W) of
               None \<Rightarrow> ''en-US''
             | Some x \<Rightarrow> if x = [] then ''en-US'' else x)]"
    by blast
  then have D: "engineCalls (run [(6000, Interval_fires 0), (6100, Timer_fires 2 None),
      (6200, Timer_fires 2 None)] ?W) = [EngineStop 0, EngineStop 1, EngineStart 1 ''en-GB'']"
    using h by (simp add: numeral_2_eq_2)
  show ?thesis
    by (intro conjI) (fact h l A B b C D)+
qed

section \<open>Errors\<close>

lemma handleError_counts:
  "errorCount (manager (handleError err now w)) = errorCount (manager w) + 1 \<and>
   st_errorCount (st_recognition (stateManager (handleError err now w))) = errorCount (manager w) + 1 \<and>
   RecognitionStateChanged
     ((st_recognition (stateManager w))\<lparr>st_errorCount := errorCount (manager w) + 1\<rparr>)
     \<in> set (notifications (handleError err now w))"
  by (simp add: handleError_def stop_def basic_defs Let_def split: option.splits)

lemma handleError_critical:
  "err \<in> set criticalErrors \<Longrightarrow> recognition (manager w) = Some e \<Longrightarrow>
   manualStop (manager (handleError err now w)) \<and>
   \<not> isRecognizing (manager (handleError err now w)) \<and>
   watchdogTimer (manager (handleError err now w)) = None \<and>
   \<not> isActive (st_recognition (stateManager (handleError err now w))) \<and>
   \<not> isListening (st_recognition (stateManager (handleError err now w))) \<and>
   engineCalls (handleError err now w) = engineCalls w @ [EngineStop (eid e)] \<and>
   lastError (stateManager (handleError err now w)) =
     Some \<lparr>err_id = Ident ''error'' now (draws w), category = ''SPEECH_RECOGNITION'',
           code = mapErrorCode err, message = getErrorMessage ''SPEECH_RECOGNITION'' (mapErrorCode err) w,
           details = Some err, err_timestamp = now\<rparr> \<and>
   ErrorEvent \<lparr>err_id = Ident ''error'' now (draws w), category = ''SPEECH_RECOGNITION'',
           code = mapErrorCode err, message = getErrorMessage ''SPEECH_RECOGNITION'' (mapErrorCode err) w,
           details = Some err, err_timestamp = now\<rparr> \<in> set (notifications (handleError err now w))"
  by (simp add: handleError_def stop_def basic_defs Let_def)

lemma handleError_budget:
  "err \<notin> set criticalErrors \<Longrightarrow> maxErrorCount (config (manager w)) \<le> errorCount (manager w) + 1 \<Longrightarrow>
   handleError err now w =
     snd (stop now
       (updateRecognitionState (\<lambda>r. r\<lparr>st_errorCount := errorCount (manager w) + 1\<rparr>)
          (w\<lparr>manager := (manager w)\<lparr>errorCount := errorCount (manager w) + 1\<rparr>\<rparr>)))"
  by (simp add: handleError_def basic_defs Let_def)

lemma handleError_budget_stops:
  "err \<notin> set criticalErrors \<Longrightarrow> maxErrorCount (config (manager w)) \<le> errorCount (manager w) + 1 \<Longrightarrow>
   recognition (manager w) = Some e \<Longrightarrow>
   manualStop (manager (handleError err now w)) \<and>
   \<not> isRecognizing (manager (handleError err now w)) \<and>
   \<not> isActive (st_recognition (stateManager (handleError err now w))) \<and>
   \<not> isListening (st_recognition (stateManager (handleError err now w))) \<and>
   engineCalls (handleError err now w) = engineCalls w @ [EngineStop (eid e)] \<and>
   lastError (stateManager (handleError err now w)) = lastError (stateManager w)"
  by (simp add: handleError_def stop_def basic_defs Let_def)

lemma handleError_ignored:
  "err \<notin> set criticalErrors \<Longrightarrow> errorCount (manager w) + 1 < maxErrorCount (config (manager w)) \<Longrightarrow>
   handleError err now w =
     updateRecognitionState (\<lambda>r. r\<lparr>st_errorCount := errorCount (manager w) + 1\<rparr>)
       (w\<lparr>manager := (manager w)\<lparr>errorCount := errorCount (manager w) + 1\<rparr>\<rparr>)"
  by (simp add: handleError_def basic_defs Let_def)

lemma handleError_below_budget:
  "err \<notin> set criticalErrors \<Longrightarrow>
   errorCount (manager w) + int (length ts) < maxErrorCount (config (manager w)) \<Longrightarrow>
   errorCount (manager (fold (handleError err) ts w)) = errorCount (manager w) + int (length ts) \<and>
   isRecognizing (manager (fold (handleError err) ts w)) = isRecognizing (manager w) \<and>
   manualStop (manager (fold (handleError err) ts w)) = manualStop (manager w) \<and>
   recognition (manager (fold (handleError err) ts w)) = recognition (manager w) \<and>
   config (manager (fold (handleError err) ts w)) = config (manager w) \<and>
   watchdogTimer (manager (fold (handleError err) ts w)) = watchdogTimer (manager w) \<and>
   isActive (st_recognition (stateManager (fold (handleError err) ts w))) =
     isActive (st_recognition (stateManager w)) \<and>
   isListening (st_recognition (stateManager (fold (handleError err) ts w))) =
     isListening (st_recognition (stateManager w)) \<and>
   timers (fold (handleError err) ts w) = timers w \<and>
   engineCalls (fold (handleError err) ts w) = engineCalls w"
proof (induction ts arbitrary: w)
  case Nil
  then show ?case by simp
next
  case (Cons t ts)
  let ?w1 = "handleError err t w"
  from Cons.prems have small: "errorCount (manager w) + 1 < maxErrorCount (config (manager w))"
    by simp
  have w1: "?w1 = updateRecognitionState (\<lambda>r. r\<lparr>st_errorCount := errorCount (manager w) + 1\<rparr>)
       (w\<lparr>manager := (manager w)\<lparr>errorCount := errorCount (manager w) + 1\<rparr>\<rparr>)"
    using handleError_ignored [OF Cons.prems(1) small] .
  have f: "errorCount (manager ?w1) = errorCount (manager w) + 1"
    "config (manager ?w1) = config (manager w)"
    "isRecognizing (manager ?w1) = isRecognizing (manager w)"
    "manualStop (manager ?w1) = manualStop (manager w)"
    "recognition (manager ?w1) = recognition (manager w)"
    "watchdogTimer (manager ?w1) = watchdogTimer (manager w)"
    "isActive (st_recognition (stateManager ?w1)) = isActive (st_recognition (stateManager w))"
    "isListening (st_recognition (stateManager ?w1)) = isListening (st_recognition (stateManager w))"
    "timers ?w1 = timers w" "engineCalls ?w1 = engineCalls w"
    by (simp_all add: w1 basic_defs Let_def)
  have "errorCount (manager ?w1) + int (length ts) < maxErrorCount (config (manager ?w1))"
    using Cons.prems f by simp
  from Cons.IH [OF Cons.prems(1) this] f show ?case by simp
qed

text \<open>
  The error policy.  Every engine error adds one to the controller's error counter and
  publishes the new count.  For a critical native code (\<open>not-allowed\<close>,
  \<open>service-not-allowed\<close>), with an engine handle, the error record (mapped code, native
  code as details) is stored and sent and \<open>stop\<close> runs at once: the engine is told to
  stop, the manual-stop flag is set, recognition is published inactive.  The flag stays
  set through whatever happens before the next end callback, and that callback then
  schedules nothing and starts nothing, so it does not take the auto-continue path; and
  no safe restart is called before an engine reports a start.  For another code the
  callback is \<open>stop\<close> after the count when the count has reached \<open>maxErrorCount\<close>, and
  the count alone below it.  With \<open>maxErrorCount = 10\<close> and a counter at 0, nine
  \<open>no-speech\<close> errors leave recognition active and untouched, and the tenth stops it.
\<close>

theorem handleError_policy:
  "errorCount (manager (handleError err now w)) = errorCount (manager w) + 1 \<and>
   st_errorCount (st_recognition (stateManager (handleError err now w))) = errorCount (manager w) + 1 \<and>
   RecognitionStateChanged
     ((st_recognition (stateManager w))\<lparr>st_errorCount := errorCount (manager w) + 1\<rparr>)
     \<in> set (notifications (handleError err now w)) \<and>
   (err \<in> set criticalErrors \<and> recognition (manager w) = Some e \<longrightarrow>
      manualStop (manager (handleError err now w)) \<and>
      \<not> isRecognizing (manager (handleError err now w)) \<and>
      \<not> isActive (st_recognition (stateManager (handleError err now w))) \<and>
      \<not> isListening (st_recognition (stateManager (handleError err now w))) \<and>
      engineCalls (handleError err now w) = engineCalls w @ [EngineStop (eid e)] \<and>
      lastError (stateManager (handleError err now w)) =
        Some \<lparr>err_id = Ident ''error'' now (draws w), category = ''SPEECH_RECOGNITION'',
              code = mapErrorCode err,
              message = getErrorMessage ''SPEECH_RECOGNITION'' (mapErrorCode err) w,
              details = Some err, err_timestamp = now\<rparr> \<and>
      ErrorEvent \<lparr>err_id = Ident ''error'' now (draws w), category = ''SPEECH_RECOGNITION'',
              code = mapErrorCode err,
              message = getErrorMessage ''SPEECH_RECOGNITION'' (mapErrorCode err) w,
              details = Some err, err_timestamp = now\<rparr>
        \<in> set (notifications (handleError err now w)) \<and>
      (list_all (\<lambda>x. \<not> is_onend (snd x)) es \<longrightarrow>
         manualStop (manager (run es (handleError err now w))) \<and>
         timers (onend tn (run es (handleError err now w))) = timers (run es (handleError err now w)) \<and>
         engineCalls (onend tn (run es (handleError err now w))) =
           engineCalls (run es (handleError err now w)) \<and>
         \<not> isRecognizing (manager (onend tn (run es (handleError err now w))))) \<and>
      (list_all (\<lambda>x. \<not> is_onstart (snd x)) es \<longrightarrow>
         safeRestarts es (handleError err now w) = 0)) \<and>
   (err \<notin> set criticalErrors \<and> maxErrorCount (config (manager w)) \<le> errorCount (manager w) + 1 \<longrightarrow>
      handleError err now w =
        snd (stop now
          (updateRecognitionState (\<lambda>r. r\<lparr>st_errorCount := errorCount (manager w) + 1\<rparr>)
             (w\<lparr>manager := (manager w)\<lparr>errorCount := errorCount (manager w) + 1\<rparr>\<rparr>)))) \<and>
   (err \<notin> set criticalErrors \<and> errorCount (manager w) + 1 < maxErrorCount (config (manager w)) \<longrightarrow>
      handleError err now w =
        updateRecognitionState (\<lambda>r. r\<lparr>st_errorCount := errorCount (manager w) + 1\<rparr>)
          (w\<lparr>manager := (manager w)\<lparr>errorCount := errorCount (manager w) + 1\<rparr>\<rparr>)) \<and>
   (errorCount (manager w) = 0 \<and> maxErrorCount (config (manager w)) = 10 \<and>
    isRecognizing (manager w) \<and> recognition (manager w) = Some e \<and> length ts = 9 \<longrightarrow>
      isRecognizing (manager (fold (handleError ''no-speech'') ts w)) \<and>
      manualStop (manager (fold (handleError ''no-speech'') ts w)) = manualStop (manager w) \<and>
      isActive (st_recognition (stateManager (fold (handleError ''no-speech'') ts w))) =
        isActive (st_recognition (stateManager w)) \<and>
      isListening (st_recognition (stateManager (fold (handleError ''no-speech'') ts w))) =
        isListening (st_recognition (stateManager w)) \<and>
      engineCalls (fold (handleError ''no-speech'') ts w) = engineCalls w \<and>
      errorCount (manager (fold (handleError ''no-speech'') ts w)) = 9 \<and>
      \<not> isRecognizing (manager (handleError ''no-speech'' now (fold (handleError ''no-speech'') ts w))) \<and>
      \<not> isActive (st_recognition (stateManager
           (handleError ''no-speech'' now (fold (handleError ''no-speech'') ts w)))) \<and>
      \<not> isListening (st_recognition (stateManager
           (handleError ''no-speech'' now (fold (handleError ''no-speech'') ts w)))) \<and>
      engineCalls (handleError ''no-speech'' now (fold (handleError ''no-speech'') ts w)) =
        engineCalls w @ [EngineStop (eid e)])"
proof -
  have crit: "manualStop (manager (run es (handleError err now w))) \<and>
         timers (onend tn (run es (handleError err now w))) = timers (run es (handleError err now w)) \<and>
         engineCalls (onend tn (run es (handleError err now w))) =
           engineCalls (run es (handleError err now w)) \<and>
         \<not> isRecognizing (manager (onend tn (run es (handleError err now w))))"
    if "err \<in> set criticalErrors" "recognition (manager w) = Some e"
      "list_all (\<lambda>x. \<not> is_onend (snd x)) es"
  proof -
    from handleError_critical [OF that(1,2)]
    have "manualStop (manager (handleError err now w))" by simp
    from manualStop_run [OF this that(3)]
    have m: "manualStop (manager (run es (handleError err now w)))" .
    with onend_after_manualStop [OF m, of tn] show ?thesis by simp
  qed
  have dog: "safeRestarts es (handleError err now w) = 0"
    if "err \<in> set criticalErrors" "recognition (manager w) = Some e"
      "list_all (\<lambda>x. \<not> is_onstart (snd x)) es"
  proof -
    from handleError_critical [OF that(1,2)]
    have "\<not> isRecognizing (manager (handleError err now w))" by simp
    from safeRestarts_idle [OF this that(3)] show ?thesis .
  qed
  have nine: "isRecognizing (manager (fold (handleError ''no-speech'') ts w)) \<and>
      manualStop (manager (fold (handleError ''no-speech'') ts w)) = manualStop (manager w) \<and>
      isActive (st_recognition (stateManager (fold (handleError ''no-speech'') ts w))) =
        isActive (st_recognition (stateManager w)) \<and>
      isListening (st_recognition (stateManager (fold (handleError ''no-speech'') ts w))) =
        isListening (st_recognition (stateManager w)) \<and>
      engineCalls (fold (handleError ''no-speech'') ts w) = engineCalls w \<and>
      errorCount (manager (fold (handleError ''no-speech'') ts w)) = 9 \<and>
      \<not> isRecognizing (manager (handleError ''no-speech'' now (fold (handleError ''no-speech'') ts w))) \<and>
      \<not> isActive (st_recognition (stateManager
           (handleError ''no-speech'' now (fold (handleError ''no-speech'') ts w)))) \<and>
      \<not> isListening (st_recognition (stateManager
           (handleError ''no-speech'' now (fold (handleError ''no-speech'') ts w)))) \<and>
      engineCalls (handleError ''no-speech'' now (fold (handleError ''no-speech'') ts w)) =
        engineCalls w @ [EngineStop (eid e)]"
    if a: "errorCount (manager w) = 0" "maxErrorCount (config (manager w)) = 10"
      "isRecognizing (manager w)" "recognition (manager w) = Some e" "length ts = 9"
  proof -
    have nc: "''no-speech'' \<notin> set criticalErrors" by (simp add: criticalErrors_def)
    have "errorCount (manager w) + int (length ts) < maxErrorCount (config (manager w))"
      using a by simp
    note b = handleError_below_budget [OF nc this]
    let ?w9 = "fold (handleError ''no-speech'') ts w"
    have "maxErrorCount (config (manager ?w9)) \<le> errorCount (manager ?w9) + 1"
      "recognition (manager ?w9) = Some e"
      using a b by simp_all
    from handleError_budget_stops [OF nc this, of now] a b show ?thesis by simp
  qed
  show ?thesis
    using handleError_counts [of err now w] handleError_critical [of err w e now]
      handleError_budget [of err w now] handleError_ignored [of err w now] crit dog nine
    by blast
qed

theorem handleError_policy_witness:
  "''not-allowed'' \<in> set criticalErrors \<and>
   recognition (manager (onstart 5 (boot ApiAvailable [] 0))) =
     Some \<lparr>eid = 0, lang = ''en-US'', e_continuous = True, e_interimResults = True,
           e_maxAlternatives = 1\<rparr> \<and>
   list_all (\<lambda>x. \<not> is_onend (snd x)) [(30, Call_start)] \<and>
   manualStop (manager (run [(30, Call_start)]
      (handleError ''not-allowed'' 20 (onstart 5 (boot ApiAvailable [] 0))))) \<and>
   timers (onend 40 (run [(30, Call_start)]
      (handleError ''not-allowed'' 20 (onstart 5 (boot ApiAvailable [] 0))))) =
     timers (run [(30, Call_start)]
      (handleError ''not-allowed'' 20 (onstart 5 (boot ApiAvailable [] 0)))) \<and>
   ''no-speech'' \<notin> set criticalErrors \<and>
   errorCount (manager (onstart 5 (boot ApiAvailable [] 0))) = 0 \<and>
   maxErrorCount (config (manager (onstart 5 (boot ApiAvailable [] 0)))) = 10 \<and>
   isRecognizing (manager (onstart 5 (boot ApiAvailable [] 0))) \<and>
   length [21, 22, 23, 24, 25, 26, 27, 28, 29 :: int] = 9 \<and>
   isRecognizing (manager (fold (handleError ''no-speech'') [21, 22, 23, 24, 25, 26, 27, 28, 29]
      (onstart 5 (boot ApiAvailable [] 0)))) \<and>
   \<not> isRecognizing (manager (handleError ''no-speech'' 30
      (fold (handleError ''no-speech'') [21, 22, 23, 24, 25, 26, 27, 28, 29]
         (onstart 5 (boot ApiAvailable [] 0))))) \<and>
   errorCount (manager (onstart 5 (boot ApiAvailable [] 0))) + 1
     < maxErrorCount (config (manager (onstart 5 (boot ApiAvailable [] 0)))) \<and>
   handleError ''no-speech'' 30 (onstart 5 (boot ApiAvailable [] 0)) =
     updateRecognitionState
       (\<lambda>r. r\<lparr>st_errorCount := errorCount (manager (onstart 5 (boot ApiAvailable [] 0))) + 1\<rparr>)
       ((onstart 5 (boot ApiAvailable [] 0))
          \<lparr>manager := (manager (onstart 5 (boot ApiAvailable [] 0)))
             \<lparr>errorCount := errorCount (manager (onstart 5 (boot ApiAvailable [] 0))) + 1\<rparr>\<rparr>) \<and>
   maxErrorCount (config (manager ((boot ApiAvailable [] 0)
        \<lparr>manager := (manager (boot ApiAvailable [] 0))\<lparr>errorCount := 9\<rparr>\<rparr>)))
     \<le> errorCount (manager ((boot ApiAvailable [] 0)
        \<lparr>manager := (manager (boot ApiAvailable [] 0))\<lparr>errorCount := 9\<rparr>\<rparr>)) + 1 \<and>
   manualStop (manager (handleError ''no-speech'' 30 ((boot ApiAvailable [] 0)
        \<lparr>manager := (manager (boot ApiAvailable [] 0))\<lparr>errorCount := 9\<rparr>\<rparr>)))"
proof -
  let ?W = "onstart 5 (boot ApiAvailable [] 0)"
  let ?E = "\<lparr>eid = 0, lang = ''en-US'', e_continuous = True, e_interimResults = True,
           e_maxAlternatives = 1\<rparr>"
  let ?ts = "[21, 22, 23, 24, 25, 26, 27, 28, 29 :: int]"
  have h: "recognition (manager ?W) = Some ?E" "errorCount (manager ?W) = 0"
    "maxErrorCount (config (manager ?W)) = 10" "isRecognizing (manager ?W)"
    by (simp_all add: world_defs onstart_def initializeRecognition_def basic_defs Let_def)
  have c: "''not-allowed'' \<in> set criticalErrors" "''no-speech'' \<notin> set criticalErrors"
    by (simp_all add: criticalErrors_def)
  have l: "list_all (\<lambda>x. \<not> is_onend (snd x)) [(30, Call_start)]" "length ?ts = 9"
    by simp_all
  note crit = handleError_policy [where err = "''not-allowed''" and w = ?W and e = ?E
      and es = "[(30, Call_start)]" and now = 20 and tn = 40 and ts = ?ts]
  note nine = handleError_policy [where err = "''no-speech''" and w = ?W and e = ?E
      and es = "[]" and now = 30 and tn = 40 and ts = ?ts]
  from crit h(1) c(1) l(1)
  have A: "manualStop (manager (run [(30, Call_start)] (handleError ''not-allowed'' 20 ?W)))"
    "timers (onend 40 (run [(30, Call_start)] (handleError ''not-allowed'' 20 ?W))) =
     timers (run [(30, Call_start)] (handleError ''not-allowed'' 20 ?W))"
    by blast+
  from nine h l(2)
  have B: "isRecognizing (manager (fold (handleError ''no-speech'') ?ts ?W))"
    "\<not> isRecognizing (manager (handleError ''no-speech'' 30
        (fold (handleError ''no-speech'') ?ts ?W)))"
    by blast+
  from nine h c(2)
  have C: "errorCount (manager ?W) + 1 < maxErrorCount (config (manager ?W))"
    "handleError ''no-speech'' 30 ?W =
     updateRecognitionState (\<lambda>r. r\<lparr>st_errorCount := errorCount (manager ?W) + 1\<rparr>)
       (?W\<lparr>manager := (manager ?W)\<lparr>errorCount := errorCount (manager ?W) + 1\<rparr>\<rparr>)"
    by simp_all
  let ?V = "(boot ApiAvailable [] 0)\<lparr>manager := (manager (boot ApiAvailable [] 0))\<lparr>errorCount := 9\<rparr>\<rparr>"
  have v: "maxErrorCount (config (manager ?V)) \<le> errorCount (manager ?V) + 1"
    by (simp add: world_defs initializeRecognition_def)
  from handleError_policy [where err = "''no-speech''" and w = ?V and e = ?E
      and es = "[]" and now = 30 and tn = 40 and ts = "[]"] v c(2)
  have "handleError ''no-speech'' 30 ?V =
        snd (stop 30
          (updateRecognitionState (\<lambda>r. r\<lparr>st_errorCount := errorCount (manager ?V) + 1\<rparr>)
             (?V\<lparr>manager := (manager ?V)\<lparr>errorCount := errorCount (manager ?V) + 1\<rparr>\<rparr>)))"
    by blast
  then have D: "manualStop (manager (handleError ''no-speech'' 30 ?V))"
    by (simp add: world_defs stop_def initializeRecognition_def basic_defs Let_def)
  show ?thesis
    by (intro conjI) (fact h c l A B C v D)+
qed

text \<open>
  C4.  The callback itself does what the claim says (\<open>handleError_policy\<close>), but a restart
  that is already on its way when the critical error arrives is not held back.  After a
  safe restart the replaced instance ends and its end callback, with the manual-stop flag
  clear, schedules the auto-continue task; that task calls \<open>start\<close>, which schedules a
  second deferred engine start next to the one of the safe restart.  The first deferred
  start reaches the new instance, the instance reports \<open>not-allowed\<close>, the error is
  recorded and \<open>stop\<close> runs, the instance ends; then the second deferred start fires,
  finds \<open>isRecognizing\<close> clear, and starts the engine again although nobody called
  \<open>start\<close> after the error.
\<close>

theorem critical_error_pending_restart:
  "map_option code (lastError (stateManager (run
      [(0, Call_start), (100, Timer_fires 0 None), (150, Engine_onstart 0),
       (6000, Interval_fires 0), (6050, Engine_onend 0), (6100, Timer_fires 2 None),
       (6150, Timer_fires 2 None), (6200, Timer_fires 2 None),
       (6205, Engine_onerror 1 ''not-allowed''), (6206, Engine_onend 1)]
      (boot ApiAvailable [] 0)))) = Some ''NOT_ALLOWED'' \<and>
   engineCalls (run
      [(0, Call_start), (100, Timer_fires 0 None), (150, Engine_onstart 0),
       (6000, Interval_fires 0), (6050, Engine_onend 0), (6100, Timer_fires 2 None),
       (6150, Timer_fires 2 None), (6200, Timer_fires 2 None),
       (6205, Engine_onerror 1 ''not-allowed''), (6206, Engine_onend 1)]
      (boot ApiAvailable [] 0)) =
     [EngineStop 0, EngineStart 0 ''en-US'', EngineStop 0, EngineStop 1, EngineStop 1,
      EngineStart 1 ''en-US'', EngineStop 1] \<and>
   engineCalls (run
      [(0, Call_start), (100, Timer_fires 0 None), (150, Engine_onstart 0),
       (6000, Interval_fires 0), (6050, Engine_onend 0), (6100, Timer_fires 2 None),
       (6150, Timer_fires 2 None), (6200, Timer_fires 2 None),
       (6205, Engine_onerror 1 ''not-allowed''), (6206, Engine_onend 1),
       (6250, Timer_fires 2 None)]
      (boot ApiAvailable [] 0)) =
     [EngineStop 0, EngineStart 0 ''en-US'', EngineStop 0, EngineStop 1, EngineStop 1,
      EngineStart 1 ''en-US'', EngineStop 1, EngineStart 1 ''en-US'']"
  by (simp add: world_defs ctl_defs basic_defs Let_def)

section \<open>Duplicate results\<close>

text \<open>
  Apart from the result callback and the expiry task, nothing touches the set of processed
  texts or the history, and nothing else schedules an expiry.
\<close>

lemma window_append:
  "in_dedup_window t T w \<Longrightarrow> processedTexts (manager w') = processedTexts (manager w) \<Longrightarrow>
   timers w' = timers w @ ts \<Longrightarrow> list_all (\<lambda>x. snd x \<noteq> Task_dedupExpire t) ts \<Longrightarrow>
   in_dedup_window t T w'"
  by (auto simp: in_dedup_window_def list_all_iff)

lemma start_frame:
  "processedTexts (manager (snd (start now w))) = processedTexts (manager w) \<and>
   textHistory (stateManager (snd (start now w))) = textHistory (stateManager w) \<and>
   (\<exists>ts. timers (snd (start now w)) = timers w @ ts \<and>
      list_all (\<lambda>x. snd x \<noteq> Task_dedupExpire t) ts)"
  by (simp add: start_def initializeRecognition_def basic_defs Let_def
      split: option.splits api.splits)

lemma stop_frame:
  "processedTexts (manager (snd (stop now w))) = processedTexts (manager w) \<and>
   textHistory (stateManager (snd (stop now w))) = textHistory (stateManager w) \<and>
   (\<exists>ts. timers (snd (stop now w)) = timers w @ ts \<and>
      list_all (\<lambda>x. snd x \<noteq> Task_dedupExpire t) ts)"
  by (simp add: stop_def basic_defs Let_def split: option.splits)

lemma changeLanguage_frame:
  "processedTexts (manager (snd (changeLanguage l now w))) = processedTexts (manager w) \<and>
   textHistory (stateManager (snd (changeLanguage l now w))) = textHistory (stateManager w) \<and>
   (\<exists>ts. timers (snd (changeLanguage l now w)) = timers w @ ts \<and>
      list_all (\<lambda>x. snd x \<noteq> Task_dedupExpire t) ts)"
  by (simp add: changeLanguage_def stop_def basic_defs Let_def split: option.splits)

lemma destroy_frame:
  "processedTexts (manager (destroy now w)) = processedTexts (manager w) \<and>
   textHistory (stateManager (destroy now w)) = textHistory (stateManager w) \<and>
   (\<exists>ts. timers (destroy now w) = timers w @ ts \<and>
      list_all (\<lambda>x. snd x \<noteq> Task_dedupExpire t) ts)"
  by (simp add: destroy_def stop_def basic_defs Let_def split: option.splits)

lemma onstart_frame:
  "processedTexts (manager (onstart now w)) = processedTexts (manager w) \<and>
   textHistory (stateManager (onstart now w)) = textHistory (stateManager w) \<and>
   (\<exists>ts. timers (onstart now w) = timers w @ ts \<and>
      list_all (\<lambda>x. snd x \<noteq> Task_dedupExpire t) ts)"
  by (simp add: onstart_def basic_defs Let_def)

lemma onend_frame:
  "processedTexts (manager (onend now w)) = processedTexts (manager w) \<and>
   textHistory (stateManager (onend now w)) = textHistory (stateManager w) \<and>
   (\<exists>ts. timers (onend now w) = timers w @ ts \<and>
      list_all (\<lambda>x. snd x \<noteq> Task_dedupExpire t) ts)"
  by (simp add: onend_def basic_defs Let_def)

lemma handleError_frame:
  "processedTexts (manager (handleError err now w)) = processedTexts (manager w) \<and>
   textHistory (stateManager (handleError err now w)) = textHistory (stateManager w) \<and>
   (\<exists>ts. timers (handleError err now w) = timers w @ ts \<and>
      list_all (\<lambda>x. snd x \<noteq> Task_dedupExpire t) ts)"
  by (simp add: handleError_def stop_def basic_defs Let_def split: option.splits)

lemma safeRestart_frame:
  "processedTexts (manager (safeRestart now w)) = processedTexts (manager w) \<and>
   textHistory (stateManager (safeRestart now w)) = textHistory (stateManager w) \<and>
   (\<exists>ts. timers (safeRestart now w) = timers w @ ts \<and>
      list_all (\<lambda>x. snd x \<noteq> Task_dedupExpire t) ts)"
  by (simp add: safeRestart_def basic_defs Let_def split: option.splits)

lemma watchdog_tick_frame:
  "processedTexts (manager (watchdog_tick now w)) = processedTexts (manager w) \<and>
   textHistory (stateManager (watchdog_tick now w)) = textHistory (stateManager w) \<and>
   (\<exists>ts. timers (watchdog_tick now w) = timers w @ ts \<and>
      list_all (\<lambda>x. snd x \<noteq> Task_dedupExpire t) ts)"
  using safeRestart_frame [of now w t] by (simp add: watchdog_tick_def Let_def)

lemma engineStart_task_frame:
  "processedTexts (manager (engineStart_task thrown now w)) = processedTexts (manager w) \<and>
   textHistory (stateManager (engineStart_task thrown now w)) = textHistory (stateManager w) \<and>
   (\<exists>ts. timers (engineStart_task thrown now w) = timers w @ ts \<and>
      list_all (\<lambda>x. snd x \<noteq> Task_dedupExpire t) ts)"
  by (simp add: engineStart_task_def basic_defs Let_def split: option.splits)

lemma safeRestartResume_task_frame:
  "processedTexts (manager (safeRestartResume_task l now w)) = processedTexts (manager w) \<and>
   textHistory (stateManager (safeRestartResume_task l now w)) = textHistory (stateManager w) \<and>
   (\<exists>ts. timers (safeRestartResume_task l now w) = timers w @ ts \<and>
      list_all (\<lambda>x. snd x \<noteq> Task_dedupExpire t) ts)"
  by (simp add: safeRestartResume_task_def start_def initializeRecognition_def basic_defs Let_def
      split: option.splits api.splits)

lemma filter_take_le: "length (filter P (take n xs)) \<le> length (filter P xs)"
proof -
  have "length (filter P xs) = length (filter P (take n xs)) + length (filter P (drop n xs))"
    by (metis append_take_drop_id filter_append length_append)
  then show ?thesis by simp
qed

lemma window_processFinalResult:
  "in_dedup_window t T w \<Longrightarrow> in_dedup_window t T (processFinalResult text now w)"
  by (auto simp: in_dedup_window_def processFinalResult_def basic_defs Let_def list_all_iff)

lemma entries_processFinalResult:
  "in_dedup_window t T w \<Longrightarrow> entries_of t (processFinalResult text now w) \<le> entries_of t w"
  by (auto simp: in_dedup_window_def entries_of_def processFinalResult_def basic_defs Let_def
      intro: order_trans [OF filter_take_le])

lemma window_handleResult:
  "in_dedup_window t T w \<Longrightarrow> in_dedup_window t T (handleResult ev now w)"
proof -
  assume a: "in_dedup_window t T w"
  have b: "in_dedup_window t T (w\<lparr>manager := (manager w)\<lparr>lastResultTime := now\<rparr>\<rparr>)"
    using a by (simp add: in_dedup_window_def)
  have c: "in_dedup_window t T (trigger n (updateRecognitionState f v))"
    if "in_dedup_window t T v" for n f v
    using that by (simp add: in_dedup_window_def basic_defs Let_def)
  show ?thesis
    using b c [OF b] window_processFinalResult [OF b] window_processFinalResult [OF c [OF b]]
    by (simp add: handleResult_def handleResult_from_def Let_def split: option.splits prod.splits)
qed

lemma entries_handleResult:
  "in_dedup_window t T w \<Longrightarrow> entries_of t (handleResult ev now w) \<le> entries_of t w"
proof -
  assume a: "in_dedup_window t T w"
  let ?w1 = "w\<lparr>manager := (manager w)\<lparr>lastResultTime := now\<rparr>\<rparr>"
  have b: "in_dedup_window t T ?w1" "entries_of t ?w1 = entries_of t w"
    using a by (simp_all add: in_dedup_window_def entries_of_def)
  have c: "in_dedup_window t T (trigger n (updateRecognitionState f v))"
    "entries_of t (trigger n (updateRecognitionState f v)) = entries_of t v"
    if "in_dedup_window t T v" for n f v
    using that by (simp_all add: in_dedup_window_def entries_of_def basic_defs Let_def)
  show ?thesis
    using b c [OF b(1)] entries_processFinalResult [OF b(1)]
      entries_processFinalResult [OF c(1) [OF b(1)]]
    by (simp add: handleResult_def handleResult_from_def Let_def split: option.splits prod.splits)
qed

lemma window_remove_timer:
  "in_dedup_window t T w \<Longrightarrow>
   in_dedup_window t T (w\<lparr>timers := take k (timers w) @ drop (Suc k) (timers w)\<rparr>)"
  by (auto simp: in_dedup_window_def list_all_iff dest: in_set_takeD in_set_dropD)

lemma window_run_task:
  assumes "in_dedup_window t T w" and "tk \<noteq> Task_dedupExpire t"
  shows "in_dedup_window t T (run_task thrown tk now w)"
proof (cases tk)
  case Task_autoContinue
  then show ?thesis
    using assms(1) start_frame [of now w t] by (auto simp: run_task_def intro: window_append)
next
  case (Task_dedupExpire t')
  with assms show ?thesis by (simp add: run_task_def in_dedup_window_def)
next
  case Task_engineStart
  then show ?thesis
    using assms(1) engineStart_task_frame [of thrown now w t]
    by (auto simp: run_task_def intro: window_append)
next
  case (Task_safeRestartResume l)
  then show ?thesis
    using assms(1) safeRestartResume_task_frame [of l now w t]
    by (auto simp: run_task_def intro: window_append)
next
  case Task_changeLanguageRestart
  then show ?thesis
    using assms(1) start_frame [of now w t] by (auto simp: run_task_def intro: window_append)
next
  case Task_clearInterim
  then show ?thesis using assms(1) by (simp add: run_task_def in_dedup_window_def trigger_def)
qed

lemma entries_run_task:
  "entries_of t (run_task thrown tk now w) = entries_of t w"
  using start_frame [of now w t] engineStart_task_frame [of thrown now w t]
    safeRestartResume_task_frame [of _ now w t]
  by (cases tk) (simp_all add: run_task_def entries_of_def trigger_def)

lemma window_step:
  assumes "in_dedup_window t T w" and "now < T"
  shows "in_dedup_window t T (step now e w)"
proof (cases e)
  case Call_start
  then show ?thesis using assms(1) start_frame [of now w t]
    by (auto simp: step_def intro: window_append)
next
  case Call_stop
  then show ?thesis using assms(1) stop_frame [of now w t]
    by (auto simp: step_def intro: window_append)
next
  case (Call_changeLanguage l)
  then show ?thesis using assms(1) changeLanguage_frame [of l now w t]
    by (auto simp: step_def intro: window_append)
next
  case Call_destroy
  then show ?thesis using assms(1) destroy_frame [of now w t]
    by (auto simp: step_def intro: window_append)
next
  case (Engine_onstart i)
  then show ?thesis using assms(1) onstart_frame [of now w t]
    by (auto simp: step_def intro: window_append)
next
  case (Engine_onend i)
  then show ?thesis using assms(1) onend_frame [of now w t]
    by (auto simp: step_def intro: window_append)
next
  case (Engine_onresult i ev)
  then show ?thesis using window_handleResult [OF assms(1)] assms(1) by (simp add: step_def)
next
  case (Engine_onerror i err)
  then show ?thesis using assms(1) handleError_frame [of err now w t]
    by (auto simp: step_def intro: window_append)
next
  case (Timer_fires k thrown)
  show ?thesis
  proof (cases "k < length (timers w) \<and> fst (timers w ! k) \<le> now")
    case True
    then have "timers w ! k \<in> set (timers w)" by simp
    with assms True have "snd (timers w ! k) \<noteq> Task_dedupExpire t"
      by (auto simp: in_dedup_window_def list_all_iff)
    from window_run_task [OF window_remove_timer [OF assms(1)] this] True Timer_fires
    show ?thesis by (simp add: step_def)
  next
    case False
    with Timer_fires assms(1) show ?thesis by (auto simp: step_def)
  qed
next
  case (Interval_fires h)
  then show ?thesis using assms(1) watchdog_tick_frame [of now w t]
    by (auto simp: step_def intro: window_append)
qed

lemma entries_step:
  assumes "in_dedup_window t T w"
  shows "entries_of t (step now e w) \<le> entries_of t w"
  using entries_handleResult [OF assms, of _ now] start_frame [of now w t] stop_frame [of now w t]
    changeLanguage_frame [of _ now w t] destroy_frame [of now w t] onstart_frame [of now w t]
    onend_frame [of now w t] handleError_frame [of _ now w t] watchdog_tick_frame [of now w t]
  by (cases e) (simp_all add: step_def entries_of_def entries_run_task [unfolded entries_of_def])

lemma window_run:
  "in_dedup_window t T w \<Longrightarrow> list_all (\<lambda>x. fst x < T) es \<Longrightarrow>
   in_dedup_window t T (run es w) \<and> entries_of t (run es w) \<le> entries_of t w"
proof (induction es arbitrary: w)
  case Nil
  then show ?case by simp
next
  case (Cons x es)
  obtain now e where x: "x = (now, e)" by (cases x)
  with Cons.prems have "now < T" "list_all (\<lambda>x. fst x < T) es" by simp_all
  from window_step [OF Cons.prems(1) this(1), of e] Cons.IH [OF _ this(2)]
    entries_step [OF Cons.prems(1), of now e] x
  show ?case by fastforce
qed

text \<open>
  In every world that the events lead to, a text has at most one expiry pending, and only
  while it is in the set of processed texts.
\<close>

lemma expiry_texts_append: "expiry_texts (xs @ ys) = expiry_texts xs @ expiry_texts ys"
  by (induction xs rule: expiry_texts.induct) simp_all

lemma expiry_texts_none:
  "(\<And>t. list_all (\<lambda>x. snd x \<noteq> Task_dedupExpire t) ts) \<Longrightarrow> expiry_texts ts = []"
  by (induction ts rule: expiry_texts.induct) auto

lemma expiry_texts_mem:
  "t \<in> set (expiry_texts ts) = (\<exists>due. (due, Task_dedupExpire t) \<in> set ts)"
  by (induction ts rule: expiry_texts.induct) auto

lemma expiries_frame:
  assumes "expiries_ok w"
    and "\<And>t. processedTexts (manager w') = processedTexts (manager w) \<and> P t \<and>
          (\<exists>ts. timers w' = timers w @ ts \<and> list_all (\<lambda>x. snd x \<noteq> Task_dedupExpire t) ts)"
  shows "expiries_ok w'"
proof -
  from assms(2) obtain ts where ts: "timers w' = timers w @ ts" by blast
  have "list_all (\<lambda>x. snd x \<noteq> Task_dedupExpire t) ts" for t
    using assms(2) [of t] ts by auto
  then have "expiry_texts ts = []" by (rule expiry_texts_none)
  with assms ts show ?thesis by (simp add: expiries_ok_def expiry_texts_append)
qed

lemma expiries_processFinalResult:
  "expiries_ok w \<Longrightarrow> expiries_ok (processFinalResult text now w)"
  by (auto simp: expiries_ok_def processFinalResult_def basic_defs Let_def expiry_texts_append)

lemma expiries_handleResult:
  "expiries_ok w \<Longrightarrow> expiries_ok (handleResult ev now w)"
proof -
  assume a: "expiries_ok w"
  have b: "expiries_ok (w\<lparr>manager := (manager w)\<lparr>lastResultTime := now\<rparr>\<rparr>)"
    using a by (simp add: expiries_ok_def)
  have c: "expiries_ok (trigger n (updateRecognitionState f v))" if "expiries_ok v" for n f v
    using that by (simp add: expiries_ok_def basic_defs Let_def)
  show ?thesis
    using b c [OF b] expiries_processFinalResult [OF b] expiries_processFinalResult [OF c [OF b]]
    by (simp add: handleResult_def handleResult_from_def Let_def split: option.splits prod.splits)
qed

lemma expiry_texts_remove:
  "k < length ts \<Longrightarrow>
   expiry_texts ts =
     expiry_texts (take k ts) @ expiry_texts [ts ! k] @ expiry_texts (drop (Suc k) ts)"
  by (metis Cons_nth_drop_Suc append_Cons append_Nil append_take_drop_id expiry_texts_append)

lemma expiries_remove_timer:
  assumes "expiries_ok w" and "k < length (timers w)"
  shows "expiries_ok (w\<lparr>timers := take k (timers w) @ drop (Suc k) (timers w)\<rparr>)"
  using assms expiry_texts_remove [OF assms(2)]
  by (auto simp: expiries_ok_def expiry_texts_append)

lemma expiries_run_task:
  assumes "expiries_ok w" and "k < length (timers w)"
  shows "expiries_ok (run_task thrown (snd (timers w ! k)) now
           (w\<lparr>timers := take k (timers w) @ drop (Suc k) (timers w)\<rparr>))"
proof -
  let ?w' = "w\<lparr>timers := take k (timers w) @ drop (Suc k) (timers w)\<rparr>"
  note ok' = expiries_remove_timer [OF assms]
  show ?thesis
  proof (cases "snd (timers w ! k)")
    case Task_autoContinue
    then show ?thesis
      using ok' start_frame [of now ?w'] by (auto simp: run_task_def intro: expiries_frame)
  next
    case (Task_dedupExpire t')
    then have "expiry_texts [timers w ! k] = [t']" by (cases "timers w ! k") simp
    with expiry_texts_remove [OF assms(2)] assms(1)
    have "t' \<notin> set (expiry_texts (timers ?w'))"
      "set (expiry_texts (timers ?w')) \<subseteq> processedTexts (manager w)"
      "distinct (expiry_texts (timers ?w'))"
      by (auto simp: expiries_ok_def expiry_texts_append)
    with Task_dedupExpire show ?thesis
      by (auto simp: run_task_def expiries_ok_def)
  next
    case Task_engineStart
    then show ?thesis
      using ok' engineStart_task_frame [of thrown now ?w']
      by (auto simp: run_task_def intro: expiries_frame)
  next
    case (Task_safeRestartResume l)
    then show ?thesis
      using ok' safeRestartResume_task_frame [of l now ?w']
      by (auto simp: run_task_def intro: expiries_frame)
  next
    case Task_changeLanguageRestart
    then show ?thesis
      using ok' start_frame [of now ?w'] by (auto simp: run_task_def intro: expiries_frame)
  next
    case Task_clearInterim
    then show ?thesis using ok' by (simp add: run_task_def expiries_ok_def trigger_def)
  qed
qed

lemma expiries_step: "expiries_ok w \<Longrightarrow> expiries_ok (step now e w)"
proof (cases e)
  case Call_start
  assume "expiries_ok w"
  then show ?thesis using Call_start start_frame [of now w]
    by (auto simp: step_def intro: expiries_frame)
next
  case Call_stop
  assume "expiries_ok w"
  then show ?thesis using Call_stop stop_frame [of now w]
    by (auto simp: step_def intro: expiries_frame)
next
  case (Call_changeLanguage l)
  assume "expiries_ok w"
  then show ?thesis using Call_changeLanguage changeLanguage_frame [of l now w]
    by (auto simp: step_def intro: expiries_frame)
next
  case Call_destroy
  assume "expiries_ok w"
  then show ?thesis using Call_destroy destroy_frame [of now w]
    by (auto simp: step_def intro: expiries_frame)
next
  case (Engine_onstart i)
  assume "expiries_ok w"
  then show ?thesis using Engine_onstart onstart_frame [of now w]
    by (auto simp: step_def intro: expiries_frame)
next
  case (Engine_onend i)
  assume "expiries_ok w"
  then show ?thesis using Engine_onend onend_frame [of now w]
    by (auto simp: step_def intro: expiries_frame)
next
  case (Engine_onresult i ev)
  assume "expiries_ok w"
  then show ?thesis using Engine_onresult expiries_handleResult [of w ev now]
    by (simp add: step_def)
next
  case (Engine_onerror i err)
  assume "expiries_ok w"
  then show ?thesis using Engine_onerror handleError_frame [of err now w]
    by (auto simp: step_def intro: expiries_frame)
next
  case (Timer_fires k thrown)
  assume "expiries_ok w"
  then show ?thesis using Timer_fires expiries_run_task [of w k thrown now]
    by (simp add: step_def)
next
  case (Interval_fires h)
  assume "expiries_ok w"
  then show ?thesis using Interval_fires watchdog_tick_frame [of now w]
    by (auto simp: step_def intro: expiries_frame)
qed

lemma expiries_run: "expiries_ok w \<Longrightarrow> expiries_ok (run es w)"
  by (induction es arbitrary: w) (auto simp: expiries_step)

lemma expiries_boot: "expiries_ok (boot a msgs now)"
  by (cases a)
    (simp_all add: expiries_ok_def boot_def initializeRecognition_def new_manager_def basic_defs Let_def)

lemma no_stale_expiry:
  "expiries_ok w \<Longrightarrow> t \<notin> processedTexts (manager w) \<Longrightarrow>
   list_all (\<lambda>x. snd x \<noteq> Task_dedupExpire t) (timers w)"
  using expiry_texts_mem [of t "timers w"]
  by (auto simp: expiries_ok_def list_all_iff)

lemma processFinalResult_accepts:
  assumes "trimText text \<noteq> []" and "trimText text \<notin> processedTexts (manager w)"
  shows "textHistory (stateManager (processFinalResult text now w)) =
      (if 0 < cfg_maxTextLines (stateManager w) \<and>
          cfg_maxTextLines (stateManager w) < int (length (textHistory (stateManager w))) + 1
       then take (nat (cfg_maxTextLines (stateManager w)))
              (\<lparr>entry_id = Ident ''text'' now (draws w), timestamp = now,
                originalText = trimText text, language = cfg_language (stateManager w)\<rparr>
               # textHistory (stateManager w))
       else \<lparr>entry_id = Ident ''text'' now (draws w), timestamp = now,
              originalText = trimText text, language = cfg_language (stateManager w)\<rparr>
            # textHistory (stateManager w))"
    and "notifications (processFinalResult text now w) =
      notifications w @
        [TextHistoryChanged
           \<lparr>entry_id = Ident ''text'' now (draws w), timestamp = now,
            originalText = trimText text, language = cfg_language (stateManager w)\<rparr>,
         RecognitionStateChanged
           ((st_recognition (stateManager w))
              \<lparr>finalText := trimText text, currentText := trimText text\<rparr>),
         TextRecognized (trimText text)]"
    and "timers (processFinalResult text now w) =
      timers w @ [(now + max 0 (duplicateCheckTimeout (config (manager w))),
                   Task_dedupExpire (trimText text))]"
    and "processedTexts (manager (processFinalResult text now w)) =
      insert (trimText text) (processedTexts (manager w))"
  using assms by (simp_all add: processFinalResult_def basic_defs Let_def)

lemma processFinalResult_drops:
  "trimText text = [] \<or> trimText text \<in> processedTexts (manager w) \<Longrightarrow>
   processFinalResult text now w = w"
  by (auto simp: processFinalResult_def Let_def)

lemma processFinalResult_opens_window:
  assumes "trimText text \<noteq> []" and "trimText text \<notin> processedTexts (manager w)"
    and "list_all (\<lambda>x. snd x \<noteq> Task_dedupExpire (trimText text)) (timers w)"
  shows "in_dedup_window (trimText text) (now + duplicateCheckTimeout (config (manager w)))
           (processFinalResult text now w)"
  using assms(3)
  by (auto simp: in_dedup_window_def processFinalResult_accepts [OF assms(1,2)] list_all_iff)

text \<open>
  C3, as amended.  Take a finalized text whose trimmed form is not empty and is not in the
  set of processed texts.  Processing it puts exactly one new entry with the trimmed text
  in front of the history (cut to the line limit) and sends the history event, the
  recognition state and \<open>textRecognized\<close>.  After any sequence of events that all happen
  before \<open>duplicateCheckTimeout\<close> has passed since then, processing a text with the same
  trimmed form again changes nothing at all and sends nothing, and no further entry with
  that text has appeared in between.  A text that is empty after trimming, or whose
  trimmed form is in the set, is dropped the same way.  The condition on pending expiries
  holds in every world reached from the initial one.
\<close>

theorem dedup_idempotence:
  "(trimText spoken \<noteq> [] \<and> trimText spoken \<notin> processedTexts (manager w) \<and>
    expiries_ok w \<longrightarrow>
      textHistory (stateManager (processFinalResult spoken now w)) =
        (if 0 < cfg_maxTextLines (stateManager w) \<and>
            cfg_maxTextLines (stateManager w) < int (length (textHistory (stateManager w))) + 1
         then take (nat (cfg_maxTextLines (stateManager w)))
                (\<lparr>entry_id = Ident ''text'' now (draws w), timestamp = now,
                  originalText = trimText spoken, language = cfg_language (stateManager w)\<rparr>
                 # textHistory (stateManager w))
         else \<lparr>entry_id = Ident ''text'' now (draws w), timestamp = now,
                originalText = trimText spoken, language = cfg_language (stateManager w)\<rparr>
              # textHistory (stateManager w)) \<and>
      notifications (processFinalResult spoken now w) =
        notifications w @
          [TextHistoryChanged
             \<lparr>entry_id = Ident ''text'' now (draws w), timestamp = now,
              originalText = trimText spoken, language = cfg_language (stateManager w)\<rparr>,
           RecognitionStateChanged
             ((st_recognition (stateManager w))
                \<lparr>finalText := trimText spoken, currentText := trimText spoken\<rparr>),
           TextRecognized (trimText spoken)] \<and>
      (list_all (\<lambda>x. fst x < now + duplicateCheckTimeout (config (manager w))) es \<and>
       trimText again = trimText spoken \<longrightarrow>
         processFinalResult again later (run es (processFinalResult spoken now w)) =
           run es (processFinalResult spoken now w) \<and>
         entries_of (trimText spoken) (run es (processFinalResult spoken now w))
           \<le> entries_of (trimText spoken) (processFinalResult spoken now w))) \<and>
   (trimText spoken = [] \<or> trimText spoken \<in> processedTexts (manager w) \<longrightarrow>
      processFinalResult spoken now w = w) \<and>
   expiries_ok (run past (boot a msgs born))"
proof -
  have reach: "expiries_ok (run past (boot a msgs born))"
    by (rule expiries_run [OF expiries_boot])
  have win: "processFinalResult again later (run es (processFinalResult spoken now w)) =
           run es (processFinalResult spoken now w) \<and>
         entries_of (trimText spoken) (run es (processFinalResult spoken now w))
           \<le> entries_of (trimText spoken) (processFinalResult spoken now w)"
    if a: "trimText spoken \<noteq> []" "trimText spoken \<notin> processedTexts (manager w)"
      "expiries_ok w"
      and b: "list_all (\<lambda>x. fst x < now + duplicateCheckTimeout (config (manager w))) es"
      and c: "trimText again = trimText spoken"
  proof -
    from window_run [OF processFinalResult_opens_window [OF a(1,2) no_stale_expiry [OF a(3,2)]] b]
    have w: "in_dedup_window (trimText spoken) (now + duplicateCheckTimeout (config (manager w)))
        (run es (processFinalResult spoken now w))"
      and e: "entries_of (trimText spoken) (run es (processFinalResult spoken now w))
           \<le> entries_of (trimText spoken) (processFinalResult spoken now w)"
      by simp_all
    from w c have "trimText again \<in> processedTexts (manager (run es (processFinalResult spoken now w)))"
      by (simp add: in_dedup_window_def)
    then have "processFinalResult again later (run es (processFinalResult spoken now w)) =
           run es (processFinalResult spoken now w)"
      by (simp add: processFinalResult_drops)
    with e show ?thesis by simp
  qed
  show ?thesis
    using processFinalResult_accepts(1,2) [of spoken w now] win
      processFinalResult_drops [of spoken w now] reach
    by blast
qed

theorem dedup_idempotence_witness:
  "trimText ''hello world'' \<noteq> [] \<and>
   trimText ''hello world'' \<notin> processedTexts (manager (boot ApiAvailable [] 0)) \<and>
   expiries_ok (boot ApiAvailable [] 0) \<and>
   list_all (\<lambda>x. fst x < 0 + duplicateCheckTimeout (config (manager (boot ApiAvailable [] 0))))
     [(100, Timer_fires 0 None)] \<and>
   trimText '' hello world '' = trimText ''hello world'' \<and>
   processFinalResult '' hello world '' 200
     (run [(100, Timer_fires 0 None)] (processFinalResult ''hello world'' 0 (boot ApiAvailable [] 0))) =
     run [(100, Timer_fires 0 None)] (processFinalResult ''hello world'' 0 (boot ApiAvailable [] 0)) \<and>
   map originalText (textHistory (stateManager (processFinalResult ''hello world'' 200
     (processFinalResult ''hello world'' 0 (boot ApiAvailable [] 0))))) = [''hello world''] \<and>
   trimText ''  '' = [] \<and>
   processFinalResult ''  '' 0 (boot ApiAvailable [] 0) = boot ApiAvailable [] 0"
proof -
  let ?W = "boot ApiAvailable [] 0"
  have h: "trimText ''hello world'' \<noteq> []"
    "trimText ''hello world'' \<notin> processedTexts (manager ?W)"
    "expiries_ok ?W"
    "list_all (\<lambda>x. fst x < 0 + duplicateCheckTimeout (config (manager ?W))) [(100, Timer_fires 0 None)]"
    "trimText '' hello world '' = trimText ''hello world''"
    "trimText ''  '' = []"
    "list_all (\<lambda>x. fst x < 0 + duplicateCheckTimeout (config (manager ?W))) []"
    "trimText ''hello world'' = ''hello world''"
    "cfg_maxTextLines (stateManager ?W) = 50" "textHistory (stateManager ?W) = []"
    by (simp_all add: trimText_def is_space_def world_defs initializeRecognition_def
        expiries_ok_def)
  note t = dedup_idempotence [where spoken = "''hello world''" and w = ?W and now = 0
      and es = "[(100, Timer_fires 0 None)]" and again = "'' hello world ''" and later = 200
      and past = "[]" and a = ApiAvailable and msgs = "[]" and born = 0]
  note u = dedup_idempotence [where spoken = "''hello world''" and w = ?W and now = 0
      and es = "[]" and again = "''hello world''" and later = 200
      and past = "[]" and a = ApiAvailable and msgs = "[]" and born = 0]
  note v = dedup_idempotence [where spoken = "''  ''" and w = ?W and now = 0
      and es = "[]" and again = "''  ''" and later = 200
      and past = "[]" and a = ApiAvailable and msgs = "[]" and born = 0]
  from t h have A: "processFinalResult '' hello world '' 200
     (run [(100, Timer_fires 0 None)] (processFinalResult ''hello world'' 0 ?W)) =
     run [(100, Timer_fires 0 None)] (processFinalResult ''hello world'' 0 ?W)"
    by blast
  from u h have "processFinalResult ''hello world'' 200 (run [] (processFinalResult ''hello world'' 0 ?W)) =
     run [] (processFinalResult ''hello world'' 0 ?W)"
    "textHistory (stateManager (processFinalResult ''hello world'' 0 ?W)) =
        (if 0 < cfg_maxTextLines (stateManager ?W) \<and>
            cfg_maxTextLines (stateManager ?W) < int (length (textHistory (stateManager ?W))) + 1
         then take (nat (cfg_maxTextLines (stateManager ?W)))
                (\<lparr>entry_id = Ident ''text'' 0 (draws ?W), timestamp = 0,
                  originalText = trimText ''hello world'', language = cfg_language (stateManager ?W)\<rparr>
                 # textHistory (stateManager ?W))
         else \<lparr>entry_id = Ident ''text'' 0 (draws ?W), timestamp = 0,
                originalText = trimText ''hello world'', language = cfg_language (stateManager ?W)\<rparr>
              # textHistory (stateManager ?W))"
    by blast+
  then have B: "map originalText (textHistory (stateManager (processFinalResult ''hello world'' 200
     (processFinalResult ''hello world'' 0 ?W)))) = [''hello world'']"
    using h(8,9,10) by simp
  from v h(6) have C: "processFinalResult ''  '' 0 ?W = ?W" by blast
  show ?thesis
    by (intro conjI) (fact h A B C)+
qed

text \<open>
  C3 as stated fails: white space submitted twice creates no entry at all; and when the
  first of two submissions is itself a duplicate of an earlier one, the second is
  accepted once the earlier window has run out, although it follows the first within
  \<open>duplicateCheckTimeout\<close>.
\<close>

theorem dedup_exactly_one_counterexample:
  "textHistory (stateManager (processFinalResult ''  '' 200
     (processFinalResult ''  '' 0 (boot ApiAvailable [] 0)))) = [] \<and>
   map originalText (textHistory (stateManager (run
     [(0, Engine_onresult 0 \<lparr>resultIndex = 0, results = [\<lparr>alternatives = [''A''], isFinal = True\<rparr>]\<rparr>),
      (1400, Engine_onresult 0 \<lparr>resultIndex = 0, results = [\<lparr>alternatives = [''A''], isFinal = True\<rparr>]\<rparr>),
      (1500, Timer_fires 0 None),
      (1550, Engine_onresult 0 \<lparr>resultIndex = 0, results = [\<lparr>alternatives = [''A''], isFinal = True\<rparr>]\<rparr>)]
     (boot ApiAvailable [] 0)))) = [''A'', ''A'']"
  by (simp add: trimText_def is_space_def world_defs ctl_defs basic_defs Let_def)

end
